theory Spec2Isabelle
  imports Main
begin

section \<open>Python values, requests and the world the scripts run in\<close>

text \<open>
  The three scripts of the repository (\<^verbatim>\<open>create_pubnub_resources.py\<close>,
  \<^verbatim>\<open>setup-pubnub.py\<close> and \<^verbatim>\<open>test-api-endpoints.py\<close>) talk to a remote HTTP API, print
  to the console, and write one file. The values they handle are the Python values that
  \<^verbatim>\<open>response.json()\<close> returns and that \<^verbatim>\<open>json=\<close> sends: \<open>JNull\<close> is Python's \<^verbatim>\<open>None\<close>,
  \<open>JObj\<close> a \<^verbatim>\<open>dict\<close> (its items, in order), \<open>JArr\<close> a \<^verbatim>\<open>list\<close>. Numbers are the integers
  (a JSON number with a fraction or an exponent is outside the model); a string is a list
  of characters, and a character of the source outside ASCII is written as its UTF-8 bytes.
\<close>

datatype json =
    JNull
  | JBool bool
  | JInt int
  | JStr string
  | JArr "json list"
  | JObj "(string \<times> json) list"

text \<open>Python's truth value of an object, as \<^verbatim>\<open>if not x\<close> and \<^verbatim>\<open>x and y\<close> test it.\<close>

fun truthy :: "json \<Rightarrow> bool" where
  "truthy JNull = False"
| "truthy (JBool b) = b"
| "truthy (JInt i) = (i \<noteq> 0)"
| "truthy (JStr s) = (s \<noteq> [])"
| "truthy (JArr xs) = (xs \<noteq> [])"
| "truthy (JObj kvs) = (kvs \<noteq> [])"

text \<open>
  The exceptions that can travel through the scripts. \<^verbatim>\<open>sys.exit(n)\<close> raises
  \<open>SystemExit n\<close>, which is not an \<^verbatim>\<open>Exception\<close> and so passes an
  \<^verbatim>\<open>except Exception\<close> clause; the others carry their message.
\<close>

datatype exn =
    RequestException string
  | JSONDecodeError string
  | AttributeError string
  | OSError string
  | SystemExit int

fun str_exn :: "exn \<Rightarrow> string" where
  "str_exn (RequestException m) = m"
| "str_exn (JSONDecodeError m) = m"
| "str_exn (AttributeError m) = m"
| "str_exn (OSError m) = m"
| "str_exn (SystemExit n) = []"

record request =
  http_method :: string
  url :: string
  headers :: "(string \<times> string) list"
  payload :: "json option"
  timeout :: "nat option"

text \<open>
  A response as the scripts read it: \<^verbatim>\<open>status_code\<close>, \<^verbatim>\<open>text\<close> (here \<open>body_text\<close>),
  and what \<^verbatim>\<open>json()\<close> gives, which is the parsed body or a decoding error with its
  message.
\<close>

record response =
  status_code :: int
  body_text :: string
  parsed :: "string + json"

datatype reply = Refused string | Answer response

text \<open>
  What the scripts do not decide themselves: how the network answers a request (a response,
  or a transport fault with its message), how Python renders a list or a dict inside an
  f-string, and whether a path can be opened for writing (\<open>Some m\<close> is the \<^verbatim>\<open>OSError\<close> raised
  by \<^verbatim>\<open>open\<close>).
\<close>

record env =
  net :: "request \<Rightarrow> reply"
  repr :: "json \<Rightarrow> string"
  open_w :: "string \<Rightarrow> string option"

text \<open>
  The effects of a run: the requests issued, in order; the files on disk; the lines printed
  to standard output (one entry for each call of \<^verbatim>\<open>print\<close>); the tracebacks printed to
  standard error.
\<close>

record world =
  sent :: "request list"
  files :: "string \<rightharpoonup> string"
  stdout :: "string list"
  stderr :: "exn list"

definition NL :: char where
  "NL = CHR 0x0A"

definition print :: "string \<Rightarrow> world \<Rightarrow> world" where
  "print s w = w\<lparr>stdout := stdout w @ [s]\<rparr>"

definition print_exc :: "exn \<Rightarrow> world \<Rightarrow> world" where
  "print_exc e w = w\<lparr>stderr := stderr w @ [e]\<rparr>"

text \<open>Decimal rendering of an integer, as an f-string renders a status code.\<close>

fun digits :: "nat \<Rightarrow> string" where
  "digits n = (if n < 10 then [''0123456789'' ! n]
               else digits (n div 10) @ [''0123456789'' ! (n mod 10)])"

declare digits.simps [simp del]

definition str_int :: "int \<Rightarrow> string" where
  "str_int i = (if i < 0 then CHR ''-'' # digits (nat (- i)) else digits (nat i))"

text \<open>What an f-string puts in place of \<^verbatim>\<open>{v}\<close>.\<close>

definition py_str :: "env \<Rightarrow> json \<Rightarrow> string" where
  "py_str env v =
     (case v of
        JNull \<Rightarrow> ''None''
      | JBool b \<Rightarrow> (if b then ''True'' else ''False'')
      | JInt i \<Rightarrow> str_int i
      | JStr s \<Rightarrow> s
      | JArr xs \<Rightarrow> repr env v
      | JObj kvs \<Rightarrow> repr env v)"

fun type_name :: "json \<Rightarrow> string" where
  "type_name JNull = ''NoneType''"
| "type_name (JBool b) = ''bool''"
| "type_name (JInt i) = ''int''"
| "type_name (JStr s) = ''str''"
| "type_name (JArr xs) = ''list''"
| "type_name (JObj kvs) = ''dict''"

text \<open>
  \<^verbatim>\<open>d.get(k)\<close>: the value under \<open>k\<close>, \<^verbatim>\<open>None\<close> when the key is absent (a later item wins,
  as in a parsed JSON object), and an \<^verbatim>\<open>AttributeError\<close> when \<open>d\<close> is not a dict.
\<close>

definition dict_get :: "json \<Rightarrow> string \<Rightarrow> exn + json" where
  "dict_get d k =
     (case d of
        JObj kvs \<Rightarrow> Inr (case map_of (rev kvs) k of None \<Rightarrow> JNull | Some v \<Rightarrow> v)
      | _ \<Rightarrow> Inl (AttributeError (CHR 0x27 # type_name d @ CHR 0x27 # '' object has no attribute ''
                  @ CHR 0x27 # ''get'' @ [CHR 0x27])))"

text \<open>\<^verbatim>\<open>response.json()\<close>.\<close>

definition json_of :: "response \<Rightarrow> exn + json" where
  "json_of r = (case parsed r of Inl m \<Rightarrow> Inl (JSONDecodeError m) | Inr v \<Rightarrow> Inr v)"

text \<open>
  \<^verbatim>\<open>requests.post\<close> and \<^verbatim>\<open>requests.get\<close>: the request is issued, and the call returns the
  response or raises the transport fault.
\<close>

definition issue :: "env \<Rightarrow> request \<Rightarrow> world \<Rightarrow> (exn + response) \<times> world" where
  "issue env rq w =
     (let w' = w\<lparr>sent := sent w @ [rq]\<rparr>
      in case net env rq of
           Refused m \<Rightarrow> (Inl (RequestException m), w')
         | Answer r \<Rightarrow> (Inr r, w'))"

definition requests_post ::
  "env \<Rightarrow> string \<Rightarrow> (string \<times> string) list \<Rightarrow> json option \<Rightarrow> nat option \<Rightarrow> world
    \<Rightarrow> (exn + response) \<times> world" where
  "requests_post env u hs js t =
     issue env \<lparr>http_method = ''POST'', url = u, headers = hs, payload = js, timeout = t\<rparr>"

definition requests_get ::
  "env \<Rightarrow> string \<Rightarrow> (string \<times> string) list \<Rightarrow> nat option \<Rightarrow> world
    \<Rightarrow> (exn + response) \<times> world" where
  "requests_get env u hs t =
     issue env \<lparr>http_method = ''GET'', url = u, headers = hs, payload = None, timeout = t\<rparr>"

text \<open>\<^verbatim>\<open>with open(path, 'w') as f: f.write(content)\<close>.\<close>

definition write_file :: "env \<Rightarrow> string \<Rightarrow> string \<Rightarrow> world \<Rightarrow> (exn + unit) \<times> world" where
  "write_file env path content w =
     (case open_w env path of
        Some m \<Rightarrow> (Inl (OSError m), w)
      | None \<Rightarrow> (Inr (), w\<lparr>files := (files w)(path \<mapsto> content)\<rparr>))"

text \<open>The constants both provisioning scripts and the probing script share.\<close>

definition API_KEY :: string where
  "API_KEY = ''si_0OXCgHBk0K7Z.Ncv1IY0F+K7dBZWyyym/DNRKLNTgopaGWB0OsulHJsr6''"

definition BASE_URL :: string where
  "BASE_URL = ''https://ps.pndsn.com/v2''"

definition auth_headers :: "(string \<times> string) list" where
  "auth_headers =
     [(''Authorization'', ''Bearer '' @ API_KEY), (''Content-Type'', ''application/json'')]"

text \<open>The marks the scripts print, U+2705, U+274C, U+2713 and U+2717.\<close>

definition check_mark_button :: string where
  "check_mark_button = [CHR 0xE2, CHR 0x9C, CHR 0x85]"

definition cross_mark :: string where
  "cross_mark = [CHR 0xE2, CHR 0x9D, CHR 0x8C]"

definition check_mark :: string where
  "check_mark = [CHR 0xE2, CHR 0x9C, CHR 0x93]"

definition ballot_x :: string where
  "ballot_x = [CHR 0xE2, CHR 0x9C, CHR 0x97]"

section \<open>\<^verbatim>\<open>create_pubnub_resources.py\<close>\<close>

text \<open>
  Every function takes the world and returns its result with the world it leaves; a result
  \<open>Inl e\<close> is the exception \<open>e\<close> raised.
\<close>

definition create_app :: "env \<Rightarrow> string \<Rightarrow> world \<Rightarrow> (exn + json) \<times> world" where
  "create_app env name w0 =
     (let w1 = print (''Creating app: '' @ name @ ''...'') w0;
          hs = [(''Authorization'', ''Bearer '' @ API_KEY),
                (''Content-Type'', ''application/json'')];
          data = JObj [(''name'', JStr name)]
      in case requests_post env (BASE_URL @ ''/apps'') hs (Some data) None w1 of
           (Inl e, w2) \<Rightarrow> (Inl e, w2)
         | (Inr response, w2) \<Rightarrow>
             (let w3 = print (''Status: '' @ str_int (status_code response)) w2;
                  w4 = print (''Response: '' @ body_text response) w3
              in if status_code response \<in> set [200, 201] then
                   (case json_of response of
                      Inl e \<Rightarrow> (Inl e, w4)
                    | Inr app_data \<Rightarrow>
                        (let w5 = print (check_mark_button @ '' App created successfully!'') w4
                         in case dict_get app_data ''id'' of
                              Inl e \<Rightarrow> (Inl e, w5)
                            | Inr v \<Rightarrow> (Inr v, print (''   App ID: '' @ py_str env v) w5)))
                 else
                   (let w5 = print (cross_mark @ '' Failed to create app'') w4;
                        w6 = print (''   Error: '' @ body_text response) w5
                    in (Inr JNull, w6))))"

definition keyset_config :: "string \<Rightarrow> json" where
  "keyset_config name =
     JObj [(''name'', JStr name),
           (''type'', JStr ''production''),
           (''config'', JObj
              [(''messagePersistence'', JObj
                  [(''enabled'', JBool True),
                   (''retention'', JInt 7),
                   (''deleteFromHistory'', JBool True),
                   (''includePresenceEvents'', JBool False)]),
               (''appContext'', JObj
                  [(''enabled'', JBool True),
                   (''region'', JStr ''aws-iad-1''),
                   (''userMetadataEvents'', JBool False),
                   (''channelMetadataEvents'', JBool False),
                   (''membershipEvents'', JBool False),
                   (''disallowGetAllUserMetadata'', JBool False),
                   (''disallowGetAllChannelMetadata'', JBool False),
                   (''referentialIntegrity'', JBool False)]),
               (''presence'', JObj [(''enabled'', JBool False)]),
               (''files'', JObj [(''enabled'', JBool False)])])]"

definition create_keyset :: "env \<Rightarrow> json \<Rightarrow> string \<Rightarrow> world \<Rightarrow> (exn + json) \<times> world" where
  "create_keyset env app_id name w0 =
     (let w1 = print (NL # ''Creating keyset: '' @ name @ ''...'') w0;
          hs = [(''Authorization'', ''Bearer '' @ API_KEY),
                (''Content-Type'', ''application/json'')];
          config = keyset_config name
      in case requests_post env (BASE_URL @ ''/apps/'' @ py_str env app_id @ ''/keysets'')
                hs (Some config) None w1 of
           (Inl e, w2) \<Rightarrow> (Inl e, w2)
         | (Inr response, w2) \<Rightarrow>
             (let w3 = print (''Status: '' @ str_int (status_code response)) w2;
                  w4 = print (''Response: '' @ take 500 (body_text response) @ ''...'') w3
              in if status_code response \<in> set [200, 201] then
                   (case json_of response of
                      Inl e \<Rightarrow> (Inl e, w4)
                    | Inr keyset_data \<Rightarrow>
                        (let w5 = print (check_mark_button @ '' Keyset created successfully!'') w4
                         in case dict_get keyset_data ''id'' of
                              Inl e \<Rightarrow> (Inl e, w5)
                            | Inr kid \<Rightarrow>
                        (let w6 = print (''   Keyset ID: '' @ py_str env kid) w5
                         in case dict_get keyset_data ''publishKey'' of
                              Inl e \<Rightarrow> (Inl e, w6)
                            | Inr pk \<Rightarrow>
                        (let w7 = print (''   Publish Key: '' @ py_str env pk) w6
                         in case dict_get keyset_data ''subscribeKey'' of
                              Inl e \<Rightarrow> (Inl e, w7)
                            | Inr sk \<Rightarrow>
                                (Inr keyset_data,
                                 print (''   Subscribe Key: '' @ py_str env sk) w7)))))
                 else
                   (let w5 = print (cross_mark @ '' Failed to create keyset'') w4;
                        w6 = print (''   Error: '' @ body_text response) w5
                    in (Inr JNull, w6))))"

definition env_content :: "env \<Rightarrow> json \<Rightarrow> json \<Rightarrow> string" where
  "env_content env publish_key subscribe_key =
     ''# PubNub Configuration for Swap It!'' @ [NL]
     @ ''# Generated automatically'' @ [NL]
     @ [NL]
     @ ''VITE_PUBNUB_PUBLISH_KEY='' @ py_str env publish_key @ [NL]
     @ ''VITE_PUBNUB_SUBSCRIBE_KEY='' @ py_str env subscribe_key @ [NL]"

definition create_env_file :: "env \<Rightarrow> json \<Rightarrow> json \<Rightarrow> world \<Rightarrow> (exn + unit) \<times> world" where
  "create_env_file env publish_key subscribe_key w0 =
     (let w1 = print (NL # ''Creating .env file...'') w0
      in case write_file env ''.env'' (env_content env publish_key subscribe_key) w1 of
           (Inl e, w2) \<Rightarrow> (Inl e, w2)
         | (Inr u, w2) \<Rightarrow> (Inr (), print (check_mark_button @ '' .env file created!'') w2))"

definition summary :: "env \<Rightarrow> json \<Rightarrow> json \<Rightarrow> json \<Rightarrow> world \<Rightarrow> world" where
  "summary env app_id publish_key subscribe_key w0 =
     (let w1 = print [] w0;
          w2 = print (replicate 50 CHR ''='') w1;
          w3 = print ''Setup Complete!'' w2;
          w4 = print (replicate 50 CHR ''='') w3;
          w5 = print [] w4;
          w6 = print (''App ID: '' @ py_str env app_id) w5;
          w7 = print (''Publish Key: '' @ py_str env publish_key) w6;
          w8 = print (''Subscribe Key: '' @ py_str env subscribe_key) w7;
          w9 = print [] w8;
          w10 = print ''Next steps:'' w9;
          w11 = print ''1. Go to https://dashboard.pubnub.com'' w10;
          w12 = print ''2. Navigate to Functions in your keyset'' w11;
          w13 = print ''3. Deploy the function from server/before-publish-function.js'' w12;
          w14 = print ''4. Initialize test game in KV Store'' w13;
          w15 = print ''5. Run: npm run dev'' w14
      in print [] w15)"

definition main :: "env \<Rightarrow> world \<Rightarrow> (exn + unit) \<times> world" where
  "main env w0 =
     (let w1 = print (replicate 50 CHR ''='') w0;
          w2 = print ''PubNub Resource Creation for Swap It!'' w1;
          w3 = print (replicate 50 CHR ''='') w2;
          w4 = print [] w3
      in case create_app env ''Swap It Game'' w4 of
           (Inl e, w5) \<Rightarrow> (Inl e, w5)
         | (Inr app_id, w5) \<Rightarrow>
             if \<not> truthy app_id then
               (Inl (SystemExit 1), print (NL # cross_mark @ '' Setup failed at app creation'') w5)
             else
               (case create_keyset env app_id ''Swap It Production'' w5 of
                  (Inl e, w6) \<Rightarrow> (Inl e, w6)
                | (Inr keyset_data, w6) \<Rightarrow>
                    if \<not> truthy keyset_data then
                      (Inl (SystemExit 1),
                       print (NL # cross_mark @ '' Setup failed at keyset creation'') w6)
                    else
                      (case dict_get keyset_data ''publishKey'' of
                         Inl e \<Rightarrow> (Inl e, w6)
                       | Inr publish_key \<Rightarrow>
                      (case dict_get keyset_data ''subscribeKey'' of
                         Inl e \<Rightarrow> (Inl e, w6)
                       | Inr subscribe_key \<Rightarrow>
                           if truthy publish_key \<and> truthy subscribe_key then
                             (case create_env_file env publish_key subscribe_key w6 of
                                (Inl e, w7) \<Rightarrow> (Inl e, w7)
                              | (Inr u, w7) \<Rightarrow>
                                  (Inr (), summary env app_id publish_key subscribe_key w7))
                           else
                             (Inl (SystemExit 1),
                              print (NL # cross_mark @ '' Could not extract keys from response'')
                                w6)))))"

text \<open>
  The \<^verbatim>\<open>__main__\<close> guard: the process and its exit code. An \<^verbatim>\<open>Exception\<close> is reported,
  its traceback printed, and the process exits with 1; \<^verbatim>\<open>SystemExit n\<close> ends the process
  with code \<open>n\<close>; a \<^verbatim>\<open>main\<close> that returns ends it with 0.
\<close>

definition run_create_pubnub_resources :: "env \<Rightarrow> world \<Rightarrow> int \<times> world" where
  "run_create_pubnub_resources env w0 =
     (case main env w0 of
        (Inr u, w1) \<Rightarrow> (0, w1)
      | (Inl e, w1) \<Rightarrow>
          (case e of
             SystemExit n \<Rightarrow> (n, w1)
           | _ \<Rightarrow>
               (let w2 = print (NL # cross_mark @ '' Error: '' @ str_exn e) w1;
                    w3 = print_exc e w2
                in (1, w3))))"

section \<open>\<^verbatim>\<open>setup-pubnub.py\<close>\<close>

text \<open>
  The second provisioning script. Its functions share their names with those of the first
  script and carry the prefix \<open>setup\<close> here; its module-level \<^verbatim>\<open>headers\<close> is
  \<open>auth_headers\<close>.
\<close>

definition setup_create_app :: "env \<Rightarrow> string \<Rightarrow> world \<Rightarrow> (exn + json) \<times> world" where
  "setup_create_app env name w0 =
     (let w1 = print (''Creating PubNub App: '' @ name) w0
      in case requests_post env (BASE_URL @ ''/apps'') auth_headers
                (Some (JObj [(''name'', JStr name)])) None w1 of
           (Inl e, w2) \<Rightarrow> (Inl e, w2)
         | (Inr response, w2) \<Rightarrow>
             (let w3 = print (''Status Code: '' @ str_int (status_code response)) w2;
                  w4 = print (''Response: '' @ body_text response) w3
              in if status_code response \<in> set [200, 201] then
                   (case json_of response of
                      Inl e \<Rightarrow> (Inl e, w4)
                    | Inr app_data \<Rightarrow>
                        (let w5 = print (check_mark @ '' App created successfully!'') w4
                         in case dict_get app_data ''id'' of
                              Inl e \<Rightarrow> (Inl e, w5)
                            | Inr v \<Rightarrow> (Inr v, print (''App ID: '' @ py_str env v) w5)))
                 else
                   (let w5 = print (ballot_x @ '' Failed to create app'') w4;
                        w6 = print (''Error: '' @ body_text response) w5
                    in (Inr JNull, w6))))"

definition setup_keyset_config :: "json \<Rightarrow> string \<Rightarrow> json" where
  "setup_keyset_config app_id name =
     JObj [(''app_id'', app_id),
           (''name'', JStr name),
           (''production'', JBool False),
           (''features'', JObj
              [(''message_persistence'', JObj
                  [(''enabled'', JBool True),
                   (''retention'', JInt 7),
                   (''delete_from_history'', JBool True),
                   (''include_presence_events'', JBool False)]),
               (''presence'', JObj
                  [(''enabled'', JBool True),
                   (''announce_max'', JInt 20),
                   (''interval'', JInt 10),
                   (''deltas'', JBool True),
                   (''debounce'', JInt 3),
                   (''generate_leave_on_disconnect'', JBool True),
                   (''stream_filtering'', JBool False)]),
               (''objects'', JObj
                  [(''enabled'', JBool True),
                   (''region'', JStr ''aws-iad-1''),
                   (''user_metadata_events'', JBool True),
                   (''channel_metadata_events'', JBool True),
                   (''membership_events'', JBool True),
                   (''referential_integrity'', JBool False),
                   (''disallow_get_all_user_metadata'', JBool False),
                   (''disallow_get_all_channel_metadata'', JBool False)])])]"

definition setup_create_keyset ::
  "env \<Rightarrow> json \<Rightarrow> string \<Rightarrow> world \<Rightarrow> (exn + json) \<times> world" where
  "setup_create_keyset env app_id name w0 =
     (let w1 = print (NL # ''Creating keyset: '' @ name) w0;
          keyset_config = setup_keyset_config app_id name
      in case requests_post env (BASE_URL @ ''/keys'') auth_headers (Some keyset_config) None w1 of
           (Inl e, w2) \<Rightarrow> (Inl e, w2)
         | (Inr response, w2) \<Rightarrow>
             (let w3 = print (''Status Code: '' @ str_int (status_code response)) w2;
                  w4 = print (''Response: '' @ body_text response) w3
              in if status_code response \<in> set [200, 201] then
                   (case json_of response of
                      Inl e \<Rightarrow> (Inl e, w4)
                    | Inr keyset_data \<Rightarrow>
                        (let w5 = print (check_mark @ '' Keyset created successfully!'') w4
                         in case dict_get keyset_data ''publish_key'' of
                              Inl e \<Rightarrow> (Inl e, w5)
                            | Inr pk \<Rightarrow>
                        (let w6 = print (NL # ''Publish Key: '' @ py_str env pk) w5
                         in case dict_get keyset_data ''subscribe_key'' of
                              Inl e \<Rightarrow> (Inl e, w6)
                            | Inr sk \<Rightarrow>
                                (Inr keyset_data,
                                 print (''Subscribe Key: '' @ py_str env sk) w6))))
                 else
                   (let w5 = print (ballot_x @ '' Failed to create keyset'') w4;
                        w6 = print (''Error: '' @ body_text response) w5
                    in (Inr JNull, w6))))"

definition setup_env_content :: "env \<Rightarrow> json \<Rightarrow> json \<Rightarrow> string" where
  "setup_env_content env pub_key sub_key =
     ''VITE_PUBNUB_PUBLISH_KEY='' @ py_str env pub_key @ [NL]
     @ ''VITE_PUBNUB_SUBSCRIBE_KEY='' @ py_str env sub_key @ [NL]"

definition save_env_file :: "env \<Rightarrow> json \<Rightarrow> json \<Rightarrow> world \<Rightarrow> (exn + unit) \<times> world" where
  "save_env_file env pub_key sub_key w0 =
     (case write_file env ''/Users/craig/Documents/gits/swapit/client/.env''
             (setup_env_content env pub_key sub_key) w0 of
        (Inl e, w1) \<Rightarrow> (Inl e, w1)
      | (Inr u, w1) \<Rightarrow>
          (let w2 = print (NL # check_mark @ '' .env file created at client/.env'') w1;
               w3 = print (NL # ''Your PubNub keys are ready to use!'') w2;
               w4 = print (NL # ''Next steps:'') w3;
               w5 = print (''1. Deploy the Before Publish Function from ''
                           @ ''server/before-publish-function.js'') w4;
               w6 = print ''2. Configure it to run on channel pattern: game.*'' w5;
               w7 = print ''3. Enable KV Store for the Function'' w6;
               w8 = print ''4. Test the game!'' w7
           in (Inr (), w8)))"

definition setup_main :: "env \<Rightarrow> world \<Rightarrow> (exn + unit) \<times> world" where
  "setup_main env w0 =
     (case setup_create_app env ''Swap It Game'' w0 of
        (Inl e, w1) \<Rightarrow> (Inl e, w1)
      | (Inr app_id, w1) \<Rightarrow>
          if \<not> truthy app_id then (Inl (SystemExit 1), w1)
          else
            (case setup_create_keyset env app_id ''Swap It Game Keys'' w1 of
               (Inl e, w2) \<Rightarrow> (Inl e, w2)
             | (Inr keyset_data, w2) \<Rightarrow>
                 if \<not> truthy keyset_data then (Inl (SystemExit 1), w2)
                 else
                   (case dict_get keyset_data ''publish_key'' of
                      Inl e \<Rightarrow> (Inl e, w2)
                    | Inr pub_key \<Rightarrow>
                   (case dict_get keyset_data ''subscribe_key'' of
                      Inl e \<Rightarrow> (Inl e, w2)
                    | Inr sub_key \<Rightarrow> save_env_file env pub_key sub_key w2))))"

text \<open>
  This script calls \<^verbatim>\<open>main()\<close> with no handler around it: an exception that escapes is
  reported by the interpreter, which prints the traceback and exits with 1.
\<close>

definition run_setup_pubnub :: "env \<Rightarrow> world \<Rightarrow> int \<times> world" where
  "run_setup_pubnub env w0 =
     (case setup_main env w0 of
        (Inr u, w1) \<Rightarrow> (0, w1)
      | (Inl e, w1) \<Rightarrow>
          (case e of
             SystemExit n \<Rightarrow> (n, w1)
           | _ \<Rightarrow> (1, print_exc e w1)))"

section \<open>\<^verbatim>\<open>test-api-endpoints.py\<close>\<close>

definition endpoints :: "(string \<times> string \<times> string) list" where
  "endpoints =
     [(''GET'', ''https://ps.pndsn.com/v2/apps'', ''List apps v2''),
      (''GET'', ''https://admin.pubnub.com/api/v1/apps'', ''List apps v1''),
      (''GET'', ''https://ps.pndsn.com/api/v2/apps'', ''List apps v2 alt''),
      (''GET'', ''https://ps.pndsn.com/v2/keysets'', ''List keysets v2''),
      (''GET'', ''https://ps.pndsn.com/v2/keys'', ''List keys v2'')]"

text \<open>
  One pass through the body of the \<^verbatim>\<open>for\<close> loop. The only exception a request raises is
  the transport fault, an \<^verbatim>\<open>Exception\<close>, which the \<^verbatim>\<open>except\<close> clause catches.
\<close>

definition probe :: "env \<Rightarrow> string \<times> string \<times> string \<Rightarrow> world \<Rightarrow> world" where
  "probe env e w0 =
     (case e of (method', url', description) \<Rightarrow>
        (let w1 = print (''Testing: '' @ description) w0;
             w2 = print (''URL: '' @ url') w1;
             w5 = (case (if method' = ''GET''
                         then requests_get env url' auth_headers (Some 5) w2
                         else requests_post env url' auth_headers None (Some 5) w2) of
                     (Inr response, w3) \<Rightarrow>
                       (let w4 = print (''Status: '' @ str_int (status_code response)) w3
                        in print (''Response: '' @ take 200 (body_text response)) w4)
                   | (Inl e, w3) \<Rightarrow> print (''Error: '' @ str_exn e) w3);
             w6 = print (replicate 80 CHR ''-'') w5
         in print [] w6))"

definition run_test_api_endpoints :: "env \<Rightarrow> world \<Rightarrow> int \<times> world" where
  "run_test_api_endpoints env w0 =
     (let w1 = print (''Testing PubNub API endpoints...'' @ [NL]) w0
      in (0, foldl (\<lambda>w e. probe env e w) w1 endpoints))"

section \<open>The requests the scripts build\<close>

text \<open>
  The three requests of the two pipelines, and the request one pass of the probing loop
  issues, written out once so that the statements below can name them.
\<close>

definition app_request :: "string \<Rightarrow> request" where
  "app_request name =
     \<lparr>http_method = ''POST'', url = BASE_URL @ ''/apps'', headers = auth_headers,
      payload = Some (JObj [(''name'', JStr name)]), timeout = None\<rparr>"

definition keyset_request :: "env \<Rightarrow> json \<Rightarrow> string \<Rightarrow> request" where
  "keyset_request env app_id name =
     \<lparr>http_method = ''POST'', url = BASE_URL @ ''/apps/'' @ py_str env app_id @ ''/keysets'',
      headers = auth_headers, payload = Some (keyset_config name), timeout = None\<rparr>"

definition setup_keyset_request :: "json \<Rightarrow> string \<Rightarrow> request" where
  "setup_keyset_request app_id name =
     \<lparr>http_method = ''POST'', url = BASE_URL @ ''/keys'', headers = auth_headers,
      payload = Some (setup_keyset_config app_id name), timeout = None\<rparr>"

definition probe_request :: "string \<times> string \<times> string \<Rightarrow> request" where
  "probe_request e =
     (case e of (method', url', description) \<Rightarrow>
        if method' = ''GET''
        then \<lparr>http_method = ''GET'', url = url', headers = auth_headers, payload = None,
              timeout = Some 5\<rparr>
        else \<lparr>http_method = ''POST'', url = url', headers = auth_headers, payload = None,
              timeout = Some 5\<rparr>)"

text \<open>
  The lines of a text file: the pieces between line feeds, a final line feed ending the
  last line rather than opening an empty one.
\<close>

fun file_lines :: "string \<Rightarrow> string list" where
  "file_lines [] = []"
| "file_lines (c # cs) =
     (if c = NL then [] # file_lines cs
      else (case file_lines cs of [] \<Rightarrow> [[c]] | l # ls \<Rightarrow> (c # l) # ls))"

section \<open>Concrete runs\<close>

text \<open>
  A world with nothing sent, printed or stored, and an environment in which the application
  endpoint gives one reply and every other endpoint another, and every path can be written.
\<close>

definition world0 :: world where
  "world0 = \<lparr>sent = [], files = Map.empty, stdout = [], stderr = []\<rparr>"

definition scripted :: "reply \<Rightarrow> reply \<Rightarrow> env" where
  "scripted a k =
     \<lparr>net = (\<lambda>rq. if url rq = BASE_URL @ ''/apps'' then a else k),
      repr = (\<lambda>v. ''...''),
      open_w = (\<lambda>p. None)\<rparr>"

definition dq :: "string \<Rightarrow> string" where
  "dq s = CHR 0x22 # s @ [CHR 0x22]"

definition json_response :: "int \<Rightarrow> string \<Rightarrow> json \<Rightarrow> response" where
  "json_response c t j = \<lparr>status_code = c, body_text = t, parsed = Inr j\<rparr>"

definition app_created :: reply where
  "app_created =
     Answer (json_response 201 (''{'' @ dq ''id'' @ '': '' @ dq ''app_123'' @ ''}'')
               (JObj [(''id'', JStr ''app_123'')]))"

definition app_unauthorized :: reply where
  "app_unauthorized =
     Answer \<lparr>status_code = 401, body_text = ''Unauthorized'', parsed = Inl ''Expecting value''\<rparr>"



definition keyset_created :: reply where
  "keyset_created =
     Answer (json_response 200
               (''{'' @ dq ''publishKey'' @ '': '' @ dq ''pub_abc'' @ '', ''
                @ dq ''subscribeKey'' @ '': '' @ dq ''sub_xyz'' @ ''}'')
               (JObj [(''publishKey'', JStr ''pub_abc''), (''subscribeKey'', JStr ''sub_xyz'')]))"

definition setup_keyset_created :: reply where
  "setup_keyset_created =
     Answer (json_response 200
               (''{'' @ dq ''publish_key'' @ '': '' @ dq ''pub_abc'' @ '', ''
                @ dq ''subscribe_key'' @ '': '' @ dq ''sub_xyz'' @ ''}'')
               (JObj [(''publish_key'', JStr ''pub_abc''), (''subscribe_key'', JStr ''sub_xyz'')]))"

definition keyset_without_keys :: reply where
  "keyset_without_keys =
     Answer (json_response 200 (''{'' @ dq ''id'' @ '': '' @ dq ''ks_1'' @ ''}'')
               (JObj [(''id'', JStr ''ks_1'')]))"


definition setup_keyset_line_feed :: reply where
  "setup_keyset_line_feed =
     Answer (json_response 200
               (''{'' @ dq ''publish_key'' @ '': '' @ dq (''pub'' @ [CHR 0x5C] @ ''nabc'') @ '', ''
                @ dq ''subscribe_key'' @ '': '' @ dq ''sub_xyz'' @ ''}'')
               (JObj [(''publish_key'', JStr (''pub'' @ [NL] @ ''abc'')),
                      (''subscribe_key'', JStr ''sub_xyz'')]))"

section \<open>Stage outcomes\<close>

text \<open>
  What \<^verbatim>\<open>create_app\<close> and \<^verbatim>\<open>create_keyset\<close> return, as a function of the network's
  reply alone: the vocabulary of the lemmas that follow, tied to the scripts' functions by
  \<open>create_app_out\<close>, \<open>setup_create_app_out\<close>, \<open>create_keyset_out\<close> and
  \<open>setup_create_keyset_out\<close>.
\<close>

definition app_outcome :: "env \<Rightarrow> string \<Rightarrow> exn + json" where
  "app_outcome env name =
     (case net env (app_request name) of
        Refused m \<Rightarrow> Inl (RequestException m)
      | Answer r \<Rightarrow>
          if status_code r \<in> set [200, 201]
          then (case json_of r of Inl e \<Rightarrow> Inl e | Inr d \<Rightarrow> dict_get d ''id'')
          else Inr JNull)"

definition keyset_outcome :: "env \<Rightarrow> request \<Rightarrow> string \<Rightarrow> exn + json" where
  "keyset_outcome env rq k =
     (case net env rq of
        Refused m \<Rightarrow> Inl (RequestException m)
      | Answer r \<Rightarrow>
          if status_code r \<in> set [200, 201]
          then (case json_of r of
                  Inl e \<Rightarrow> Inl e
                | Inr d \<Rightarrow> (case dict_get d k of Inl e \<Rightarrow> Inl e | Inr v \<Rightarrow> Inr d))
          else Inr JNull)"

section \<open>What each stage returns and what it leaves behind\<close>

lemma print_frame [simp]:
  "sent (print s w) = sent w" "files (print s w) = files w" "stderr (print s w) = stderr w"
  by (simp_all add: print_def)

lemma print_exc_frame [simp]:
  "sent (print_exc e w) = sent w" "files (print_exc e w) = files w"
  "stderr (print_exc e w) = stderr w @ [e]"
  by (simp_all add: print_exc_def)

lemma issue_eq:
  "issue env rq w =
     (case net env rq of Refused m \<Rightarrow> Inl (RequestException m) | Answer r \<Rightarrow> Inr r,
      w\<lparr>sent := sent w @ [rq]\<rparr>)"
  by (simp add: issue_def Let_def split: reply.split)

lemma dict_get_JObj:
  "dict_get (JObj kvs) k = Inr (case map_of (rev kvs) k of None \<Rightarrow> JNull | Some v \<Rightarrow> v)"
  by (simp add: dict_get_def)

lemma dict_get_total:
  "dict_get d k = Inr v \<Longrightarrow> \<exists>v'. dict_get d k' = Inr v'"
  by (cases d) (simp_all add: dict_get_def)

lemma create_app_fst:
  "fst (create_app env name w) =
     (case net env (app_request name) of
        Refused m \<Rightarrow> Inl (RequestException m)
      | Answer r \<Rightarrow>
          if status_code r \<in> set [200, 201]
          then (case json_of r of Inl e \<Rightarrow> Inl e | Inr d \<Rightarrow> dict_get d ''id'')
          else Inr JNull)"
  unfolding create_app_def requests_post_def app_request_def auth_headers_def Let_def issue_eq
  by (simp split: reply.split sum.split)

lemma create_app_snd:
  "sent (snd (create_app env name w)) = sent w @ [app_request name]"
  "files (snd (create_app env name w)) = files w"
  "stderr (snd (create_app env name w)) = stderr w"
  unfolding create_app_def requests_post_def app_request_def auth_headers_def Let_def issue_eq
  by (simp_all split: reply.split sum.split)

lemma setup_create_app_fst:
  "fst (setup_create_app env name w) =
     (case net env (app_request name) of
        Refused m \<Rightarrow> Inl (RequestException m)
      | Answer r \<Rightarrow>
          if status_code r \<in> set [200, 201]
          then (case json_of r of Inl e \<Rightarrow> Inl e | Inr d \<Rightarrow> dict_get d ''id'')
          else Inr JNull)"
  unfolding setup_create_app_def requests_post_def app_request_def Let_def issue_eq
  by (simp split: reply.split sum.split)

lemma setup_create_app_snd:
  "sent (snd (setup_create_app env name w)) = sent w @ [app_request name]"
  "files (snd (setup_create_app env name w)) = files w"
  "stderr (snd (setup_create_app env name w)) = stderr w"
  unfolding setup_create_app_def requests_post_def app_request_def Let_def issue_eq
  by (simp_all split: reply.split sum.split)

lemma create_keyset_fst:
  "fst (create_keyset env app_id name w) =
     (case net env (keyset_request env app_id name) of
        Refused m \<Rightarrow> Inl (RequestException m)
      | Answer r \<Rightarrow>
          if status_code r \<in> set [200, 201]
          then (case json_of r of
                  Inl e \<Rightarrow> Inl e
                | Inr d \<Rightarrow> (case dict_get d ''id'' of Inl e \<Rightarrow> Inl e | Inr v \<Rightarrow> Inr d))
          else Inr JNull)"
  unfolding create_keyset_def requests_post_def keyset_request_def auth_headers_def Let_def
    issue_eq dict_get_def
  by (simp split: reply.split sum.split json.split)

lemma create_keyset_snd:
  "sent (snd (create_keyset env app_id name w)) = sent w @ [keyset_request env app_id name]"
  "files (snd (create_keyset env app_id name w)) = files w"
  "stderr (snd (create_keyset env app_id name w)) = stderr w"
  unfolding create_keyset_def requests_post_def keyset_request_def auth_headers_def Let_def
    issue_eq
  by (simp_all split: reply.split sum.split)

lemma setup_create_keyset_fst:
  "fst (setup_create_keyset env app_id name w) =
     (case net env (setup_keyset_request app_id name) of
        Refused m \<Rightarrow> Inl (RequestException m)
      | Answer r \<Rightarrow>
          if status_code r \<in> set [200, 201]
          then (case json_of r of
                  Inl e \<Rightarrow> Inl e
                | Inr d \<Rightarrow>
                    (case dict_get d ''publish_key'' of Inl e \<Rightarrow> Inl e | Inr v \<Rightarrow> Inr d))
          else Inr JNull)"
  unfolding setup_create_keyset_def requests_post_def setup_keyset_request_def Let_def
    issue_eq dict_get_def
  by (simp split: reply.split sum.split json.split)

lemma setup_create_keyset_snd:
  "sent (snd (setup_create_keyset env app_id name w)) =
     sent w @ [setup_keyset_request app_id name]"
  "files (snd (setup_create_keyset env app_id name w)) = files w"
  "stderr (snd (setup_create_keyset env app_id name w)) = stderr w"
  unfolding setup_create_keyset_def requests_post_def setup_keyset_request_def Let_def issue_eq
  by (simp_all split: reply.split sum.split)

lemma create_env_file_fst:
  "fst (create_env_file env pk sk w) =
     (case open_w env ''.env'' of Some m \<Rightarrow> Inl (OSError m) | None \<Rightarrow> Inr ())"
  unfolding create_env_file_def write_file_def Let_def
  by (simp split: option.split)

lemma create_env_file_snd:
  "sent (snd (create_env_file env pk sk w)) = sent w"
  "stderr (snd (create_env_file env pk sk w)) = stderr w"
  "files (snd (create_env_file env pk sk w)) =
     (case open_w env ''.env'' of
        Some m \<Rightarrow> files w
      | None \<Rightarrow> (files w)(''.env'' \<mapsto> env_content env pk sk))"
  unfolding create_env_file_def write_file_def Let_def
  by (simp_all split: option.split)

lemma save_env_file_fst:
  "fst (save_env_file env pk sk w) =
     (case open_w env ''/Users/craig/Documents/gits/swapit/client/.env'' of
        Some m \<Rightarrow> Inl (OSError m) | None \<Rightarrow> Inr ())"
  unfolding save_env_file_def write_file_def Let_def
  by (simp split: option.split)

lemma save_env_file_snd:
  "sent (snd (save_env_file env pk sk w)) = sent w"
  "stderr (snd (save_env_file env pk sk w)) = stderr w"
  "files (snd (save_env_file env pk sk w)) =
     (case open_w env ''/Users/craig/Documents/gits/swapit/client/.env'' of
        Some m \<Rightarrow> files w
      | None \<Rightarrow> (files w)(''/Users/craig/Documents/gits/swapit/client/.env''
                            \<mapsto> setup_env_content env pk sk))"
  unfolding save_env_file_def write_file_def Let_def
  by (simp_all split: option.split)

lemma summary_frame [simp]:
  "sent (summary env a p s w) = sent w" "files (summary env a p s w) = files w"
  "stderr (summary env a p s w) = stderr w"
  by (simp_all add: summary_def Let_def)

lemma scripted_net_app [simp]:
  "net (scripted a k) (app_request name) = a"
  by (simp add: scripted_def app_request_def)

lemma scripted_net_keyset [simp]:
  "net (scripted a k) (keyset_request env v name) = k"
  by (simp add: scripted_def keyset_request_def)

lemma scripted_net_setup_keyset [simp]:
  "net (scripted a k) (setup_keyset_request v name) = k"
  by (simp add: scripted_def setup_keyset_request_def)

lemma scripted_open [simp]:
  "open_w (scripted a k) p = None"
  by (simp add: scripted_def)

lemma json_response_simps [simp]:
  "status_code (json_response c t j) = c"
  "parsed (json_response c t j) = Inr j"
  "json_of (json_response c t j) = Inr j"
  by (simp_all add: json_response_def json_of_def)

lemma create_app_out: "fst (create_app env name w) = app_outcome env name"
  by (simp add: create_app_fst app_outcome_def)

lemma setup_create_app_out: "fst (setup_create_app env name w) = app_outcome env name"
  by (simp add: setup_create_app_fst app_outcome_def)

lemma create_keyset_out:
  "fst (create_keyset env v name w) = keyset_outcome env (keyset_request env v name) ''id''"
  by (simp add: create_keyset_fst keyset_outcome_def)

lemma setup_create_keyset_out:
  "fst (setup_create_keyset env v name w) =
     keyset_outcome env (setup_keyset_request v name) ''publish_key''"
  by (simp add: setup_create_keyset_fst keyset_outcome_def)

lemmas main_simps =
  split_beta create_app_out create_app_snd create_keyset_out create_keyset_snd
  create_env_file_fst create_env_file_snd

lemma main_app_raises:
  assumes "app_outcome env ''Swap It Game'' = Inl e"
  shows "fst (main env w) = Inl e"
    and "sent (snd (main env w)) = sent w @ [app_request ''Swap It Game'']"
    and "files (snd (main env w)) = files w"
    and "stderr (snd (main env w)) = stderr w"
  using assms unfolding main_def Let_def by (simp_all add: main_simps)

lemma main_app_empty:
  assumes "app_outcome env ''Swap It Game'' = Inr v" and "\<not> truthy v"
  shows "fst (main env w) = Inl (SystemExit 1)"
    and "sent (snd (main env w)) = sent w @ [app_request ''Swap It Game'']"
    and "files (snd (main env w)) = files w"
    and "stderr (snd (main env w)) = stderr w"
  using assms unfolding main_def Let_def by (simp_all add: main_simps)

lemma main_keyset_raises:
  assumes "app_outcome env ''Swap It Game'' = Inr v" and "truthy v"
    and "keyset_outcome env (keyset_request env v ''Swap It Production'') ''id'' = Inl e"
  shows "fst (main env w) = Inl e"
    and "sent (snd (main env w)) =
           sent w @ [app_request ''Swap It Game'', keyset_request env v ''Swap It Production'']"
    and "files (snd (main env w)) = files w"
    and "stderr (snd (main env w)) = stderr w"
  using assms unfolding main_def Let_def by (simp_all add: main_simps)

lemma main_keyset_empty:
  assumes "app_outcome env ''Swap It Game'' = Inr v" and "truthy v"
    and "keyset_outcome env (keyset_request env v ''Swap It Production'') ''id'' = Inr k"
    and "\<not> truthy k"
  shows "fst (main env w) = Inl (SystemExit 1)"
    and "sent (snd (main env w)) =
           sent w @ [app_request ''Swap It Game'', keyset_request env v ''Swap It Production'']"
    and "files (snd (main env w)) = files w"
    and "stderr (snd (main env w)) = stderr w"
  using assms unfolding main_def Let_def by (simp_all add: main_simps)

lemma main_publish_key_missing:
  assumes "app_outcome env ''Swap It Game'' = Inr v" and "truthy v"
    and "keyset_outcome env (keyset_request env v ''Swap It Production'') ''id'' = Inr k"
    and "truthy k"
    and "dict_get k ''publishKey'' = Inr pk" and "dict_get k ''subscribeKey'' = Inr sk"
    and "\<not> truthy pk"
  shows "fst (main env w) = Inl (SystemExit 1)"
    and "sent (snd (main env w)) =
           sent w @ [app_request ''Swap It Game'', keyset_request env v ''Swap It Production'']"
    and "files (snd (main env w)) = files w"
    and "stderr (snd (main env w)) = stderr w"
  using assms unfolding main_def Let_def by (simp_all add: main_simps)

lemma main_subscribe_key_missing:
  assumes "app_outcome env ''Swap It Game'' = Inr v" and "truthy v"
    and "keyset_outcome env (keyset_request env v ''Swap It Production'') ''id'' = Inr k"
    and "truthy k"
    and "dict_get k ''publishKey'' = Inr pk" and "dict_get k ''subscribeKey'' = Inr sk"
    and "\<not> truthy sk"
  shows "fst (main env w) = Inl (SystemExit 1)"
    and "sent (snd (main env w)) =
           sent w @ [app_request ''Swap It Game'', keyset_request env v ''Swap It Production'']"
    and "files (snd (main env w)) = files w"
    and "stderr (snd (main env w)) = stderr w"
  using assms unfolding main_def Let_def by (simp_all add: main_simps)

lemma main_persists:
  assumes "app_outcome env ''Swap It Game'' = Inr v" and "truthy v"
    and "keyset_outcome env (keyset_request env v ''Swap It Production'') ''id'' = Inr k"
    and "truthy k"
    and "dict_get k ''publishKey'' = Inr pk" and "dict_get k ''subscribeKey'' = Inr sk"
    and "truthy pk" and "truthy sk"
  shows "fst (main env w) =
           (case open_w env ''.env'' of Some m \<Rightarrow> Inl (OSError m) | None \<Rightarrow> Inr ())"
    and "sent (snd (main env w)) =
           sent w @ [app_request ''Swap It Game'', keyset_request env v ''Swap It Production'']"
    and "files (snd (main env w)) =
           (case open_w env ''.env'' of
              Some m \<Rightarrow> files w
            | None \<Rightarrow> (files w)(''.env'' \<mapsto> env_content env pk sk))"
    and "stderr (snd (main env w)) = stderr w"
  using assms unfolding main_def Let_def by (simp_all add: main_simps split: option.split)


lemmas setup_main_simps =
  split_beta setup_create_app_out setup_create_app_snd setup_create_keyset_out
  setup_create_keyset_snd save_env_file_fst save_env_file_snd

lemma setup_main_app_raises:
  assumes "app_outcome env ''Swap It Game'' = Inl e"
  shows "fst (setup_main env w) = Inl e"
    and "sent (snd (setup_main env w)) = sent w @ [app_request ''Swap It Game'']"
    and "files (snd (setup_main env w)) = files w"
    and "stderr (snd (setup_main env w)) = stderr w"
  using assms unfolding setup_main_def Let_def by (simp_all add: setup_main_simps)

lemma setup_main_app_empty:
  assumes "app_outcome env ''Swap It Game'' = Inr v" and "\<not> truthy v"
  shows "fst (setup_main env w) = Inl (SystemExit 1)"
    and "sent (snd (setup_main env w)) = sent w @ [app_request ''Swap It Game'']"
    and "files (snd (setup_main env w)) = files w"
    and "stderr (snd (setup_main env w)) = stderr w"
  using assms unfolding setup_main_def Let_def by (simp_all add: setup_main_simps)



lemma setup_main_persists:
  assumes "app_outcome env ''Swap It Game'' = Inr v" and "truthy v"
    and "keyset_outcome env (setup_keyset_request v ''Swap It Game Keys'') ''publish_key'' = Inr k"
    and "truthy k"
    and "dict_get k ''publish_key'' = Inr pk" and "dict_get k ''subscribe_key'' = Inr sk"
  shows "fst (setup_main env w) =
           (case open_w env ''/Users/craig/Documents/gits/swapit/client/.env'' of
              Some m \<Rightarrow> Inl (OSError m) | None \<Rightarrow> Inr ())"
    and "sent (snd (setup_main env w)) =
           sent w @ [app_request ''Swap It Game'', setup_keyset_request v ''Swap It Game Keys'']"
    and "files (snd (setup_main env w)) =
           (case open_w env ''/Users/craig/Documents/gits/swapit/client/.env'' of
              Some m \<Rightarrow> files w
            | None \<Rightarrow> (files w)(''/Users/craig/Documents/gits/swapit/client/.env''
                                  \<mapsto> setup_env_content env pk sk))"
    and "stderr (snd (setup_main env w)) = stderr w"
  using assms unfolding setup_main_def Let_def
  by (simp_all add: setup_main_simps split: option.split)


lemma dict_get_fault:
  "dict_get d k = Inl e \<Longrightarrow> \<exists>m. e = AttributeError m"
  by (cases d) (auto simp add: dict_get_def)

lemma app_outcome_cases:
  obtains (fault) e where "app_outcome env name = Inl e" and "\<And>n. e \<noteq> SystemExit n"
        | (val) v where "app_outcome env name = Inr v"
proof (cases "app_outcome env name")
  case (Inl e)
  then have "\<And>n. e \<noteq> SystemExit n"
    by (auto simp add: app_outcome_def json_of_def
             split: reply.splits if_splits sum.splits dest: dict_get_fault)
  with Inl show ?thesis by (rule fault)
next
  case (Inr v)
  then show ?thesis by (rule val)
qed


lemma app_outcome_truthy:
  "(\<exists>v. app_outcome env name = Inr v \<and> truthy v) \<longleftrightarrow>
   (\<exists>r d v. net env (app_request name) = Answer r \<and> status_code r \<in> set [200, 201] \<and>
            parsed r = Inr d \<and> dict_get d ''id'' = Inr v \<and> truthy v)"
  by (auto simp add: app_outcome_def json_of_def split: reply.splits if_splits sum.splits)

lemma run_create_pubnub_resources_eq:
  "fst (run_create_pubnub_resources env w) =
     (case fst (main env w) of Inr u \<Rightarrow> 0 | Inl (SystemExit n) \<Rightarrow> n | Inl e \<Rightarrow> 1)"
  "sent (snd (run_create_pubnub_resources env w)) = sent (snd (main env w))"
  "files (snd (run_create_pubnub_resources env w)) = files (snd (main env w))"
  "stderr (snd (run_create_pubnub_resources env w)) =
     (case fst (main env w) of
        Inr u \<Rightarrow> stderr (snd (main env w))
      | Inl (SystemExit n) \<Rightarrow> stderr (snd (main env w))
      | Inl e \<Rightarrow> stderr (snd (main env w)) @ [e])"
  unfolding run_create_pubnub_resources_def Let_def
  by (simp_all add: split_beta split: sum.split exn.split)

lemma run_setup_pubnub_eq:
  "fst (run_setup_pubnub env w) =
     (case fst (setup_main env w) of Inr u \<Rightarrow> 0 | Inl (SystemExit n) \<Rightarrow> n | Inl e \<Rightarrow> 1)"
  "sent (snd (run_setup_pubnub env w)) = sent (snd (setup_main env w))"
  "files (snd (run_setup_pubnub env w)) = files (snd (setup_main env w))"
  "stderr (snd (run_setup_pubnub env w)) =
     (case fst (setup_main env w) of
        Inr u \<Rightarrow> stderr (snd (setup_main env w))
      | Inl (SystemExit n) \<Rightarrow> stderr (snd (setup_main env w))
      | Inl e \<Rightarrow> stderr (snd (setup_main env w)) @ [e])"
  unfolding run_setup_pubnub_def Let_def
  by (simp_all add: split_beta split: sum.split exn.split)

lemma exit_of_fault:
  "(\<And>n. e \<noteq> SystemExit n) \<Longrightarrow>
   (case e of SystemExit n \<Rightarrow> n | _ \<Rightarrow> (1::int)) = 1"
  by (cases e) auto


lemma stage1_abort:
  assumes "\<not> (\<exists>v. app_outcome env ''Swap It Game'' = Inr v \<and> truthy v)"
  shows "fst (run_create_pubnub_resources env w) = 1 \<and>
      sent (snd (run_create_pubnub_resources env w)) = sent w @ [app_request ''Swap It Game''] \<and>
      files (snd (run_create_pubnub_resources env w)) = files w \<and>
      fst (run_setup_pubnub env w) = 1 \<and>
      sent (snd (run_setup_pubnub env w)) = sent w @ [app_request ''Swap It Game''] \<and>
      files (snd (run_setup_pubnub env w)) = files w"
proof (cases rule: app_outcome_cases [of env "''Swap It Game''"])
  case (fault e)
  then show ?thesis
    by (simp add: run_create_pubnub_resources_eq run_setup_pubnub_eq main_app_raises
          setup_main_app_raises exit_of_fault)
next
  case (val v)
  with assms have "\<not> truthy v" by simp
  with val show ?thesis
    by (simp add: run_create_pubnub_resources_eq run_setup_pubnub_eq main_app_empty
          setup_main_app_empty)
qed

section \<open>The claims\<close>

subsection \<open>C4: stage 2 needs an application identifier\<close>

text \<open>
  Claim C4. Stage 2 runs only when stage 1 yields a non-empty application identifier. The
  hypothesis says that stage 1 yields none: there is no response to the application-creation
  request with a status in \<open>{200, 201}\<close> whose JSON body holds a non-empty \<^verbatim>\<open>id\<close>. That
  covers a status outside \<open>{200, 201}\<close>, a body without \<^verbatim>\<open>id\<close> (where \<^verbatim>\<open>get\<close> gives
  \<^verbatim>\<open>None\<close>), an empty \<^verbatim>\<open>id\<close>, and also a body that is no JSON object and a transport
  fault. In each case both scripts exit with code 1, hence non-zero, and the
  application-creation request is the only request they issue: no keyset-creation request
  follows.
\<close>

theorem no_keyset_request_without_app_id:
  assumes "\<not> (\<exists>r d v. net env (app_request ''Swap It Game'') = Answer r \<and>
                 status_code r \<in> set [200, 201] \<and> parsed r = Inr d \<and>
                 dict_get d ''id'' = Inr v \<and> truthy v)"
  shows "fst (run_create_pubnub_resources env w) = 1 \<and>
      sent (snd (run_create_pubnub_resources env w)) = sent w @ [app_request ''Swap It Game''] \<and>
      fst (run_setup_pubnub env w) = 1 \<and>
      sent (snd (run_setup_pubnub env w)) = sent w @ [app_request ''Swap It Game'']"
proof -
  from assms have "\<not> (\<exists>v. app_outcome env ''Swap It Game'' = Inr v \<and> truthy v)"
    by (simp only: app_outcome_truthy not_False_eq_True)
  from stage1_abort [OF this, of w] show ?thesis by simp
qed

text \<open>
  The witness for C4: the application endpoint answers 401 (the scenario of the
  specification), the run exits with 1 and only the application request has been issued.
\<close>

theorem no_keyset_request_without_app_id_witness:
  "fst (run_create_pubnub_resources (scripted app_unauthorized keyset_created) world0) = 1 \<and>
   sent (snd (run_create_pubnub_resources (scripted app_unauthorized keyset_created) world0))
     = [app_request ''Swap It Game''] \<and>
   fst (run_setup_pubnub (scripted app_unauthorized keyset_created) world0) = 1 \<and>
   sent (snd (run_setup_pubnub (scripted app_unauthorized keyset_created) world0))
     = [app_request ''Swap It Game'']"
  using no_keyset_request_without_app_id
          [of "scripted app_unauthorized keyset_created" world0]
  by (simp add: app_unauthorized_def world0_def)

subsection \<open>C3: the keyset request is scoped by the identifier\<close>

lemma app_outcome_value:
  assumes "net env (app_request name) = Answer r" and "status_code r \<in> set [200, 201]"
    and "parsed r = Inr d"
  shows "app_outcome env name = dict_get d ''id''"
  using assms by (simp add: app_outcome_def json_of_def)

lemma keyset_outcome_value:
  assumes "net env rq = Answer r" and "status_code r \<in> set [200, 201]"
    and "parsed r = Inr (JObj kvs)"
  shows "keyset_outcome env rq key = Inr (JObj kvs)"
  using assms by (simp add: keyset_outcome_def json_of_def dict_get_JObj)








subsection \<open>C9: an aborted run leaves the disk untouched\<close>






subsection \<open>C1: a keyset record without credentials\<close>

text \<open>
  Claim C1 fails on \<^verbatim>\<open>setup-pubnub.py\<close>. The keyset endpoint answers with status 200 and a
  JSON object that has neither credential field. \<^verbatim>\<open>create_pubnub_resources.py\<close> tests
  \<^verbatim>\<open>if publish_key and subscribe_key\<close>, writes nothing and exits with 1;
  \<^verbatim>\<open>setup-pubnub.py\<close> has no such test, passes the two \<^verbatim>\<open>None\<close> values to
  \<^verbatim>\<open>save_env_file\<close>, which writes them as the text \<^verbatim>\<open>None\<close>, and exits with 0.
\<close>

theorem setup_pubnub_persists_missing_keys:
  "keyset_without_keys =
     Answer \<lparr>status_code = 200, body_text = ''{'' @ dq ''id'' @ '': '' @ dq ''ks_1'' @ ''}'',
             parsed = Inr (JObj [(''id'', JStr ''ks_1'')])\<rparr> \<and>
   fst (run_setup_pubnub (scripted app_created keyset_without_keys) world0) = 0 \<and>
   files (snd (run_setup_pubnub (scripted app_created keyset_without_keys) world0)) =
     [''/Users/craig/Documents/gits/swapit/client/.env'' \<mapsto>
        ''VITE_PUBNUB_PUBLISH_KEY=None'' @ [NL] @ ''VITE_PUBNUB_SUBSCRIBE_KEY=None'' @ [NL]] \<and>
   fst (run_create_pubnub_resources (scripted app_created keyset_without_keys) world0) = 1 \<and>
   files (snd (run_create_pubnub_resources (scripted app_created keyset_without_keys) world0)) =
     Map.empty"
proof -
  let ?env = "scripted app_created keyset_without_keys"
  let ?k = "JObj [(''id'', JStr ''ks_1'')]"
  have app: "app_outcome ?env ''Swap It Game'' = Inr (JStr ''app_123'')"
    by (simp add: app_outcome_def app_created_def dict_get_JObj)
  have ks: "keyset_outcome ?env rq key = Inr ?k"
    if "url rq \<noteq> BASE_URL @ ''/apps''" for rq key
    using that
    by (simp add: keyset_outcome_def keyset_without_keys_def scripted_def dict_get_JObj)
  have ks1: "keyset_outcome ?env (setup_keyset_request (JStr ''app_123'') ''Swap It Game Keys'')
               ''publish_key'' = Inr ?k"
    by (rule ks) (simp add: setup_keyset_request_def)
  have ks2: "keyset_outcome ?env (keyset_request ?env (JStr ''app_123'') ''Swap It Production'')
               ''id'' = Inr ?k"
    by (rule ks) (simp add: keyset_request_def)
  have g1: "dict_get ?k ''publish_key'' = Inr JNull" "dict_get ?k ''subscribe_key'' = Inr JNull"
    "dict_get ?k ''publishKey'' = Inr JNull" "dict_get ?k ''subscribeKey'' = Inr JNull"
    by (simp_all add: dict_get_JObj)
  have b: "fst (run_setup_pubnub ?env world0) = 0"
    "files (snd (run_setup_pubnub ?env world0)) =
     [''/Users/craig/Documents/gits/swapit/client/.env'' \<mapsto>
        ''VITE_PUBNUB_PUBLISH_KEY=None'' @ [NL] @ ''VITE_PUBNUB_SUBSCRIBE_KEY=None'' @ [NL]]"
    using setup_main_persists [OF app _ ks1 _ g1(1) g1(2), of world0]
    by (simp_all add: run_setup_pubnub_eq setup_env_content_def py_str_def world0_def)
  have a: "fst (run_create_pubnub_resources ?env world0) = 1"
    "files (snd (run_create_pubnub_resources ?env world0)) = Map.empty"
    using main_publish_key_missing [OF app _ ks2 _ g1(3) g1(4), of world0]
    by (simp_all add: run_create_pubnub_resources_eq world0_def)
  show ?thesis using a b by (simp add: keyset_without_keys_def json_response_def)
qed

text \<open>
  The first script does keep the invariant: whenever the keyset record lacks a non-empty
  publish or subscribe credential, it writes nothing and exits with 1.
\<close>

lemma create_pubnub_resources_requires_both_keys:
  assumes "net env (app_request ''Swap It Game'') = Answer r1"
    and "status_code r1 \<in> set [200, 201]" and "parsed r1 = Inr d1"
    and "dict_get d1 ''id'' = Inr v" and "truthy v"
    and "net env (keyset_request env v ''Swap It Production'') = Answer r2"
    and "status_code r2 \<in> set [200, 201]" and "parsed r2 = Inr (JObj kvs)"
    and "dict_get (JObj kvs) ''publishKey'' = Inr pk"
    and "dict_get (JObj kvs) ''subscribeKey'' = Inr sk"
    and "\<not> truthy pk \<or> \<not> truthy sk"
  shows "fst (run_create_pubnub_resources env w) = 1 \<and>
         files (snd (run_create_pubnub_resources env w)) = files w"
proof -
  from assms have app: "app_outcome env ''Swap It Game'' = Inr v"
    by (simp add: app_outcome_value)
  from assms have ks: "keyset_outcome env (keyset_request env v ''Swap It Production'') ''id''
                        = Inr (JObj kvs)"
    by (simp add: keyset_outcome_value)
  show ?thesis
  proof (cases "truthy (JObj kvs)")
    case False
    from main_keyset_empty [OF app \<open>truthy v\<close> ks False, of w] show ?thesis
      by (simp add: run_create_pubnub_resources_eq)
  next
    case True
    from \<open>\<not> truthy pk \<or> \<not> truthy sk\<close> show ?thesis
    proof
      assume "\<not> truthy pk"
      from main_publish_key_missing [OF app \<open>truthy v\<close> ks True assms(9) assms(10) this, of w]
      show ?thesis by (simp add: run_create_pubnub_resources_eq)
    next
      assume "\<not> truthy sk"
      from main_subscribe_key_missing [OF app \<open>truthy v\<close> ks True assms(9) assms(10) this, of w]
      show ?thesis by (simp add: run_create_pubnub_resources_eq)
    qed
  qed
qed

subsection \<open>C2: the persisted file\<close>

lemma file_lines_line:
  "NL \<notin> set s \<Longrightarrow> file_lines (s @ NL # rest) = s # file_lines rest"
  by (induction s) auto

lemma file_lines_env_content:
  assumes "NL \<notin> set p" and "NL \<notin> set s"
  shows "file_lines (env_content env (JStr p) (JStr s)) =
           [''# PubNub Configuration for Swap It!'', ''# Generated automatically'', [],
            ''VITE_PUBNUB_PUBLISH_KEY='' @ p, ''VITE_PUBNUB_SUBSCRIBE_KEY='' @ s]"
proof -
  have nl: "NL \<notin> set ''# PubNub Configuration for Swap It!''"
    "NL \<notin> set ''# Generated automatically''" "NL \<notin> set []"
    "NL \<notin> set (''VITE_PUBNUB_PUBLISH_KEY='' @ p)"
    "NL \<notin> set (''VITE_PUBNUB_SUBSCRIBE_KEY='' @ s)"
    using assms by (simp_all add: NL_def)
  have "env_content env (JStr p) (JStr s) =
          ''# PubNub Configuration for Swap It!'' @ NL #
          ''# Generated automatically'' @ NL #
          [] @ NL #
          (''VITE_PUBNUB_PUBLISH_KEY='' @ p) @ NL #
          (''VITE_PUBNUB_SUBSCRIBE_KEY='' @ s) @ NL # []"
    by (simp add: env_content_def py_str_def)
  then show ?thesis
    by (simp only: file_lines_line [OF nl(1)] file_lines_line [OF nl(2)]
          file_lines_line [OF nl(3)] file_lines_line [OF nl(4)] file_lines_line [OF nl(5)]
          file_lines.simps)
qed

lemma file_lines_setup_env_content:
  assumes "NL \<notin> set p" and "NL \<notin> set s"
  shows "file_lines (setup_env_content env (JStr p) (JStr s)) =
           [''VITE_PUBNUB_PUBLISH_KEY='' @ p, ''VITE_PUBNUB_SUBSCRIBE_KEY='' @ s]"
proof -
  have nl: "NL \<notin> set (''VITE_PUBNUB_PUBLISH_KEY='' @ p)"
    "NL \<notin> set (''VITE_PUBNUB_SUBSCRIBE_KEY='' @ s)"
    using assms by (simp_all add: NL_def)
  have "setup_env_content env (JStr p) (JStr s) =
          (''VITE_PUBNUB_PUBLISH_KEY='' @ p) @ NL #
          (''VITE_PUBNUB_SUBSCRIBE_KEY='' @ s) @ NL # []"
    by (simp add: setup_env_content_def py_str_def)
  then show ?thesis
    by (simp only: file_lines_line [OF nl(1)] file_lines_line [OF nl(2)] file_lines.simps)
qed

lemma truthy_dict_of_get:
  assumes "dict_get k key = Inr (JStr s)"
  shows "truthy k" and "\<exists>kvs. k = JObj kvs"
  using assms by (cases k; cases "k = JObj []"; simp add: dict_get_def)+


lemma persisted_by_create_pubnub_resources:
  assumes "net env (app_request ''Swap It Game'') = Answer r1"
    and "status_code r1 \<in> set [200, 201]" and "parsed r1 = Inr d1"
    and "dict_get d1 ''id'' = Inr v" and "truthy v"
    and "net env (keyset_request env v ''Swap It Production'') = Answer r2"
    and "status_code r2 \<in> set [200, 201]" and "parsed r2 = Inr k"
    and "dict_get k ''publishKey'' = Inr pk" and "truthy pk"
    and "dict_get k ''subscribeKey'' = Inr sk" and "truthy sk"
    and "open_w env ''.env'' = None"
  shows "fst (run_create_pubnub_resources env w) = 0"
    and "files (snd (run_create_pubnub_resources env w)) =
           (files w)(''.env'' \<mapsto> env_content env pk sk)"
    and "stderr (snd (run_create_pubnub_resources env w)) = stderr w"
proof -
  from assms have app: "app_outcome env ''Swap It Game'' = Inr v"
    by (simp add: app_outcome_value)
  from \<open>dict_get k ''publishKey'' = Inr pk\<close> obtain kvs where k: "k = JObj kvs"
    by (auto dest: dict_get_total simp add: dict_get_def split: json.splits)
  with assms(9,10) have tk: "truthy k"
    by (cases kvs) (auto simp add: dict_get_JObj)
  from assms k have ks: "keyset_outcome env (keyset_request env v ''Swap It Production'') ''id''
                        = Inr k"
    by (simp add: keyset_outcome_value)
  note m = main_persists [OF app \<open>truthy v\<close> ks tk assms(9) assms(11) assms(10) assms(12), of w]
  from m assms(13) show "fst (run_create_pubnub_resources env w) = 0"
    and "files (snd (run_create_pubnub_resources env w)) =
           (files w)(''.env'' \<mapsto> env_content env pk sk)"
    and "stderr (snd (run_create_pubnub_resources env w)) = stderr w"
    by (simp_all add: run_create_pubnub_resources_eq)
qed

lemma persisted_by_setup_pubnub:
  assumes "net env (app_request ''Swap It Game'') = Answer r1"
    and "status_code r1 \<in> set [200, 201]" and "parsed r1 = Inr d1"
    and "dict_get d1 ''id'' = Inr v" and "truthy v"
    and "net env (setup_keyset_request v ''Swap It Game Keys'') = Answer r2"
    and "status_code r2 \<in> set [200, 201]" and "parsed r2 = Inr k" and "truthy k"
    and "dict_get k ''publish_key'' = Inr pk"
    and "dict_get k ''subscribe_key'' = Inr sk"
    and "open_w env ''/Users/craig/Documents/gits/swapit/client/.env'' = None"
  shows "fst (run_setup_pubnub env w) = 0"
    and "files (snd (run_setup_pubnub env w)) =
           (files w)(''/Users/craig/Documents/gits/swapit/client/.env''
                     \<mapsto> setup_env_content env pk sk)"
    and "stderr (snd (run_setup_pubnub env w)) = stderr w"
proof -
  from assms have app: "app_outcome env ''Swap It Game'' = Inr v"
    by (simp add: app_outcome_value)
  from \<open>dict_get k ''publish_key'' = Inr pk\<close> obtain kvs where k: "k = JObj kvs"
    by (auto dest: dict_get_total simp add: dict_get_def split: json.splits)
  from assms k have ks: "keyset_outcome env (setup_keyset_request v ''Swap It Game Keys'')
                          ''publish_key'' = Inr k"
    by (simp add: keyset_outcome_value)
  note m = setup_main_persists [OF app \<open>truthy v\<close> ks \<open>truthy k\<close> assms(10) assms(11), of w]
  from m assms(12) show "fst (run_setup_pubnub env w) = 0"
    and "files (snd (run_setup_pubnub env w)) =
           (files w)(''/Users/craig/Documents/gits/swapit/client/.env''
                     \<mapsto> setup_env_content env pk sk)"
    and "stderr (snd (run_setup_pubnub env w)) = stderr w"
    by (simp_all add: run_setup_pubnub_eq)
qed


text \<open>
  Claim C2, as stated, fails. In the successful run of the specification's scenario
  (credentials \<^verbatim>\<open>pub_abc\<close> and \<^verbatim>\<open>sub_xyz\<close>) the file that \<^verbatim>\<open>create_env_file\<close> of
  \<^verbatim>\<open>create_pubnub_resources.py\<close> writes has five lines: two comment lines and an empty
  line come before the two \<^verbatim>\<open>KEY=value\<close> lines. And a credential that contains a line feed
  is written as it is, so that the file of \<^verbatim>\<open>setup-pubnub.py\<close> then has three lines.
\<close>

theorem two_line_file_counterexample:
  "fst (run_create_pubnub_resources (scripted app_created keyset_created) world0) = 0 \<and>
   map_option file_lines
     (files (snd (run_create_pubnub_resources (scripted app_created keyset_created) world0))
        ''.env'') =
     Some [''# PubNub Configuration for Swap It!'', ''# Generated automatically'', [],
           ''VITE_PUBNUB_PUBLISH_KEY=pub_abc'', ''VITE_PUBNUB_SUBSCRIBE_KEY=sub_xyz''] \<and>
   fst (run_setup_pubnub (scripted app_created setup_keyset_line_feed) world0) = 0 \<and>
   map_option file_lines
     (files (snd (run_setup_pubnub (scripted app_created setup_keyset_line_feed) world0))
        ''/Users/craig/Documents/gits/swapit/client/.env'') =
     Some [''VITE_PUBNUB_PUBLISH_KEY=pub'', ''abc'', ''VITE_PUBNUB_SUBSCRIBE_KEY=sub_xyz'']"
proof -
  let ?r1 = "json_response 201 (''{'' @ dq ''id'' @ '': '' @ dq ''app_123'' @ ''}'')
               (JObj [(''id'', JStr ''app_123'')])"
  let ?d1 = "JObj [(''id'', JStr ''app_123'')]"
  let ?k = "JObj [(''publishKey'', JStr ''pub_abc''), (''subscribeKey'', JStr ''sub_xyz'')]"
  let ?k' = "JObj [(''publish_key'', JStr (''pub'' @ [NL] @ ''abc'')),
                   (''subscribe_key'', JStr ''sub_xyz'')]"
  have a: "fst (run_create_pubnub_resources (scripted app_created keyset_created) world0) = 0"
    "files (snd (run_create_pubnub_resources (scripted app_created keyset_created) world0)) =
       (files world0)(''.env'' \<mapsto> env_content (scripted app_created keyset_created)
                                     (JStr ''pub_abc'') (JStr ''sub_xyz''))"
    using persisted_by_create_pubnub_resources
            [of "scripted app_created keyset_created" ?r1 ?d1 "JStr ''app_123''" _ ?k
                "JStr ''pub_abc''" "JStr ''sub_xyz''" world0]
    by (simp_all add: app_created_def keyset_created_def dict_get_JObj)
  have b: "fst (run_setup_pubnub (scripted app_created setup_keyset_line_feed) world0) = 0"
    "files (snd (run_setup_pubnub (scripted app_created setup_keyset_line_feed) world0)) =
       (files world0)(''/Users/craig/Documents/gits/swapit/client/.env'' \<mapsto>
          setup_env_content (scripted app_created setup_keyset_line_feed)
            (JStr (''pub'' @ [NL] @ ''abc'')) (JStr ''sub_xyz''))"
    using persisted_by_setup_pubnub
            [of "scripted app_created setup_keyset_line_feed" ?r1 ?d1 "JStr ''app_123''" _ ?k'
                "JStr (''pub'' @ [NL] @ ''abc'')" "JStr ''sub_xyz''" world0]
    by (simp_all add: app_created_def setup_keyset_line_feed_def dict_get_JObj NL_def)
  have c: "file_lines (env_content (scripted app_created keyset_created)
                         (JStr ''pub_abc'') (JStr ''sub_xyz'')) =
             [''# PubNub Configuration for Swap It!'', ''# Generated automatically'', [],
              ''VITE_PUBNUB_PUBLISH_KEY=pub_abc'', ''VITE_PUBNUB_SUBSCRIBE_KEY=sub_xyz'']"
    by (simp add: file_lines_env_content NL_def)
  have d: "file_lines (setup_env_content (scripted app_created setup_keyset_line_feed)
                         (JStr (''pub'' @ [NL] @ ''abc'')) (JStr ''sub_xyz'')) =
             [''VITE_PUBNUB_PUBLISH_KEY=pub'', ''abc'', ''VITE_PUBNUB_SUBSCRIBE_KEY=sub_xyz'']"
  proof -
    have nl: "NL \<notin> set ''VITE_PUBNUB_PUBLISH_KEY=pub''" "NL \<notin> set ''abc''"
      "NL \<notin> set ''VITE_PUBNUB_SUBSCRIBE_KEY=sub_xyz''"
      by (simp_all add: NL_def)
    have "setup_env_content (scripted app_created setup_keyset_line_feed)
            (JStr (''pub'' @ [NL] @ ''abc'')) (JStr ''sub_xyz'') =
          ''VITE_PUBNUB_PUBLISH_KEY=pub'' @ NL # ''abc'' @ NL #
          ''VITE_PUBNUB_SUBSCRIBE_KEY=sub_xyz'' @ NL # []"
      by (simp add: setup_env_content_def py_str_def)
    then show ?thesis
      by (simp only: file_lines_line [OF nl(1)] file_lines_line [OF nl(2)]
            file_lines_line [OF nl(3)] file_lines.simps)
  qed
  show ?thesis by (simp only: a b c d fun_upd_same option.map simp_thms)
qed

text \<open>
  Claim C2, amended. For every successful run with publish credential \<open>P\<close> and subscribe
  credential \<open>S\<close> (strings; non-empty where the script tests it), the only change on disk is
  the file at the destination path. The file of \<^verbatim>\<open>setup-pubnub.py\<close> is
  \<^verbatim>\<open>VITE_PUBNUB_PUBLISH_KEY=P\<close>, a line feed, \<^verbatim>\<open>VITE_PUBNUB_SUBSCRIBE_KEY=S\<close>, a line feed; that
  of \<^verbatim>\<open>create_pubnub_resources.py\<close> is the same after two comment lines and an empty line.
  When neither credential contains a line feed these are exactly two lines, and five lines
  of which the last two are the two \<^verbatim>\<open>KEY=value\<close> lines.
\<close>

theorem persisted_file_content:
  "(net env (app_request ''Swap It Game'') = Answer r1 \<and>
    status_code r1 \<in> set [200, 201] \<and> parsed r1 = Inr d1 \<and>
    dict_get d1 ''id'' = Inr v \<and> truthy v \<and>
    net env (keyset_request env v ''Swap It Production'') = Answer r2 \<and>
    status_code r2 \<in> set [200, 201] \<and> parsed r2 = Inr k \<and>
    dict_get k ''publishKey'' = Inr (JStr P) \<and> P \<noteq> [] \<and>
    dict_get k ''subscribeKey'' = Inr (JStr S) \<and> S \<noteq> [] \<and>
    open_w env ''.env'' = None
    \<longrightarrow>
    fst (run_create_pubnub_resources env w) = 0 \<and>
    files (snd (run_create_pubnub_resources env w)) =
      (files w)(''.env'' \<mapsto>
         ''# PubNub Configuration for Swap It!'' @ [NL] @ ''# Generated automatically'' @ [NL]
         @ [NL] @ ''VITE_PUBNUB_PUBLISH_KEY='' @ P @ [NL]
         @ ''VITE_PUBNUB_SUBSCRIBE_KEY='' @ S @ [NL]) \<and>
    (NL \<notin> set P \<and> NL \<notin> set S \<longrightarrow>
       map_option file_lines (files (snd (run_create_pubnub_resources env w)) ''.env'') =
         Some [''# PubNub Configuration for Swap It!'', ''# Generated automatically'', [],
               ''VITE_PUBNUB_PUBLISH_KEY='' @ P, ''VITE_PUBNUB_SUBSCRIBE_KEY='' @ S]))
   \<and>
   (net env (app_request ''Swap It Game'') = Answer r1 \<and>
    status_code r1 \<in> set [200, 201] \<and> parsed r1 = Inr d1 \<and>
    dict_get d1 ''id'' = Inr v \<and> truthy v \<and>
    net env (setup_keyset_request v ''Swap It Game Keys'') = Answer r2' \<and>
    status_code r2' \<in> set [200, 201] \<and> parsed r2' = Inr k' \<and>
    dict_get k' ''publish_key'' = Inr (JStr P) \<and>
    dict_get k' ''subscribe_key'' = Inr (JStr S) \<and>
    open_w env ''/Users/craig/Documents/gits/swapit/client/.env'' = None
    \<longrightarrow>
    fst (run_setup_pubnub env w) = 0 \<and>
    files (snd (run_setup_pubnub env w)) =
      (files w)(''/Users/craig/Documents/gits/swapit/client/.env'' \<mapsto>
         ''VITE_PUBNUB_PUBLISH_KEY='' @ P @ [NL] @ ''VITE_PUBNUB_SUBSCRIBE_KEY='' @ S @ [NL]) \<and>
    (NL \<notin> set P \<and> NL \<notin> set S \<longrightarrow>
       map_option file_lines
         (files (snd (run_setup_pubnub env w))
            ''/Users/craig/Documents/gits/swapit/client/.env'') =
         Some [''VITE_PUBNUB_PUBLISH_KEY='' @ P, ''VITE_PUBNUB_SUBSCRIBE_KEY='' @ S]))"
proof (intro conjI impI; elim conjE)
  assume h: "net env (app_request ''Swap It Game'') = Answer r1"
    "status_code r1 \<in> set [200, 201]" "parsed r1 = Inr d1"
    "dict_get d1 ''id'' = Inr v" "truthy v"
    "net env (keyset_request env v ''Swap It Production'') = Answer r2"
    "status_code r2 \<in> set [200, 201]" "parsed r2 = Inr k"
    "dict_get k ''publishKey'' = Inr (JStr P)" "P \<noteq> []"
    "dict_get k ''subscribeKey'' = Inr (JStr S)" "S \<noteq> []"
    "open_w env ''.env'' = None"
  note p = persisted_by_create_pubnub_resources
             [OF h(1-9) _ h(11) _ h(13), of w, simplified, OF h(10) h(12)]
  show "fst (run_create_pubnub_resources env w) = 0" by (rule p(1))
  show f: "files (snd (run_create_pubnub_resources env w)) =
      (files w)(''.env'' \<mapsto>
         ''# PubNub Configuration for Swap It!'' @ [NL] @ ''# Generated automatically'' @ [NL]
         @ [NL] @ ''VITE_PUBNUB_PUBLISH_KEY='' @ P @ [NL]
         @ ''VITE_PUBNUB_SUBSCRIBE_KEY='' @ S @ [NL])"
    by (simp add: p(2) env_content_def py_str_def)
  assume "NL \<notin> set P" "NL \<notin> set S"
  then show "map_option file_lines (files (snd (run_create_pubnub_resources env w)) ''.env'') =
         Some [''# PubNub Configuration for Swap It!'', ''# Generated automatically'', [],
               ''VITE_PUBNUB_PUBLISH_KEY='' @ P, ''VITE_PUBNUB_SUBSCRIBE_KEY='' @ S]"
    by (simp add: p(2) file_lines_env_content)
next
  assume h: "net env (app_request ''Swap It Game'') = Answer r1"
    "status_code r1 \<in> set [200, 201]" "parsed r1 = Inr d1"
    "dict_get d1 ''id'' = Inr v" "truthy v"
    "net env (setup_keyset_request v ''Swap It Game Keys'') = Answer r2'"
    "status_code r2' \<in> set [200, 201]" "parsed r2' = Inr k'"
    "dict_get k' ''publish_key'' = Inr (JStr P)"
    "dict_get k' ''subscribe_key'' = Inr (JStr S)"
    "open_w env ''/Users/craig/Documents/gits/swapit/client/.env'' = None"
  note p = persisted_by_setup_pubnub
             [OF h(1-8) truthy_dict_of_get(1) [OF h(9)] h(9) h(10) h(11), of w]
  show "fst (run_setup_pubnub env w) = 0" by (rule p(1))
  show "files (snd (run_setup_pubnub env w)) =
      (files w)(''/Users/craig/Documents/gits/swapit/client/.env'' \<mapsto>
         ''VITE_PUBNUB_PUBLISH_KEY='' @ P @ [NL] @ ''VITE_PUBNUB_SUBSCRIBE_KEY='' @ S @ [NL])"
    by (simp add: p(2) setup_env_content_def py_str_def)
  assume "NL \<notin> set P" "NL \<notin> set S"
  then show "map_option file_lines
         (files (snd (run_setup_pubnub env w))
            ''/Users/craig/Documents/gits/swapit/client/.env'') =
         Some [''VITE_PUBNUB_PUBLISH_KEY='' @ P, ''VITE_PUBNUB_SUBSCRIBE_KEY='' @ S]"
    by (simp add: p(2) file_lines_setup_env_content)
qed


text \<open>
  The witness for C2: the scenario of the specification in both scripts, started with
  another file on disk, which is left as it was.
\<close>

theorem persisted_file_content_witness:
  "fst (run_create_pubnub_resources (scripted app_created keyset_created)
          (world0\<lparr>files := [''notes.txt'' \<mapsto> ''keep'']\<rparr>)) = 0 \<and>
   files (snd (run_create_pubnub_resources (scripted app_created keyset_created)
                 (world0\<lparr>files := [''notes.txt'' \<mapsto> ''keep'']\<rparr>))) =
     [''notes.txt'' \<mapsto> ''keep'',
      ''.env'' \<mapsto>
         ''# PubNub Configuration for Swap It!'' @ [NL] @ ''# Generated automatically'' @ [NL]
         @ [NL] @ ''VITE_PUBNUB_PUBLISH_KEY=pub_abc'' @ [NL]
         @ ''VITE_PUBNUB_SUBSCRIBE_KEY=sub_xyz'' @ [NL]] \<and>
   fst (run_setup_pubnub (scripted app_created setup_keyset_created)
          (world0\<lparr>files := [''notes.txt'' \<mapsto> ''keep'']\<rparr>)) = 0 \<and>
   files (snd (run_setup_pubnub (scripted app_created setup_keyset_created)
                 (world0\<lparr>files := [''notes.txt'' \<mapsto> ''keep'']\<rparr>))) =
     [''notes.txt'' \<mapsto> ''keep'',
      ''/Users/craig/Documents/gits/swapit/client/.env'' \<mapsto>
         ''VITE_PUBNUB_PUBLISH_KEY=pub_abc'' @ [NL]
         @ ''VITE_PUBNUB_SUBSCRIBE_KEY=sub_xyz'' @ [NL]] \<and>
   map_option file_lines
     (files (snd (run_setup_pubnub (scripted app_created setup_keyset_created)
                    (world0\<lparr>files := [''notes.txt'' \<mapsto> ''keep'']\<rparr>)))
        ''/Users/craig/Documents/gits/swapit/client/.env'') =
     Some [''VITE_PUBNUB_PUBLISH_KEY=pub_abc'', ''VITE_PUBNUB_SUBSCRIBE_KEY=sub_xyz'']"
  using persisted_file_content
          [where env = "scripted app_created keyset_created"
             and ?r1.0 = "json_response 201 (''{'' @ dq ''id'' @ '': '' @ dq ''app_123'' @ ''}'')
                            (JObj [(''id'', JStr ''app_123'')])"
             and ?d1.0 = "JObj [(''id'', JStr ''app_123'')]" and v = "JStr ''app_123''"
             and ?r2.0 = "json_response 200
               (''{'' @ dq ''publishKey'' @ '': '' @ dq ''pub_abc'' @ '', ''
                @ dq ''subscribeKey'' @ '': '' @ dq ''sub_xyz'' @ ''}'')
               (JObj [(''publishKey'', JStr ''pub_abc''), (''subscribeKey'', JStr ''sub_xyz'')])"
             and k = "JObj [(''publishKey'', JStr ''pub_abc''),
                            (''subscribeKey'', JStr ''sub_xyz'')]"
             and P = "''pub_abc''" and S = "''sub_xyz''"
             and w = "world0\<lparr>files := [''notes.txt'' \<mapsto> ''keep'']\<rparr>", THEN conjunct1]
        persisted_file_content
          [where env = "scripted app_created setup_keyset_created"
             and ?r1.0 = "json_response 201 (''{'' @ dq ''id'' @ '': '' @ dq ''app_123'' @ ''}'')
                            (JObj [(''id'', JStr ''app_123'')])"
             and ?d1.0 = "JObj [(''id'', JStr ''app_123'')]" and v = "JStr ''app_123''"
             and r2' = "json_response 200
               (''{'' @ dq ''publish_key'' @ '': '' @ dq ''pub_abc'' @ '', ''
                @ dq ''subscribe_key'' @ '': '' @ dq ''sub_xyz'' @ ''}'')
               (JObj [(''publish_key'', JStr ''pub_abc''),
                      (''subscribe_key'', JStr ''sub_xyz'')])"
             and k' = "JObj [(''publish_key'', JStr ''pub_abc''),
                             (''subscribe_key'', JStr ''sub_xyz'')]"
             and P = "''pub_abc''" and S = "''sub_xyz''"
             and w = "world0\<lparr>files := [''notes.txt'' \<mapsto> ''keep'']\<rparr>", THEN conjunct2]
  by (simp add: app_created_def keyset_created_def setup_keyset_created_def dict_get_JObj
        world0_def NL_def)

subsection \<open>C5: the destination is overwritten\<close>

text \<open>
  Claim C5. The persist-credentials operation of each script writes one fixed path
  (\<^verbatim>\<open>.env\<close> in \<^verbatim>\<open>create_pubnub_resources.py\<close>, an absolute path in \<^verbatim>\<open>setup-pubnub.py\<close>).
  When the path can be opened, the files afterwards are the files before with that one path
  bound to the text built from the two credentials: the content does not depend on what was
  at the path (two runs from different worlds leave the same content there), and no other
  path is touched, so nothing keeps the old content.
\<close>

theorem persist_overwrites_fixed_path:
  "(open_w env ''.env'' = None \<longrightarrow>
      files (snd (create_env_file env P S w)) = (files w)(''.env'' \<mapsto> env_content env P S) \<and>
      files (snd (create_env_file env P S w)) ''.env'' =
        files (snd (create_env_file env P S w')) ''.env'') \<and>
   (open_w env ''/Users/craig/Documents/gits/swapit/client/.env'' = None \<longrightarrow>
      files (snd (save_env_file env P S w)) =
        (files w)(''/Users/craig/Documents/gits/swapit/client/.env''
                  \<mapsto> setup_env_content env P S) \<and>
      files (snd (save_env_file env P S w)) ''/Users/craig/Documents/gits/swapit/client/.env'' =
        files (snd (save_env_file env P S w'))
          ''/Users/craig/Documents/gits/swapit/client/.env'')"
  by (simp add: create_env_file_snd save_env_file_snd)

text \<open>
  The witness for C5: a file with other content is at each destination path, and another
  file beside it; after the operation the destination holds the new text alone and the
  other file is as it was.
\<close>

theorem persist_overwrites_fixed_path_witness:
  "files (snd (create_env_file (scripted app_created keyset_created)
                 (JStr ''pub_abc'') (JStr ''sub_xyz'')
                 (world0\<lparr>files := [''.env'' \<mapsto> ''OLD=1'', ''notes.txt'' \<mapsto> ''keep'']\<rparr>))) =
     [''.env'' \<mapsto>
         ''# PubNub Configuration for Swap It!'' @ [NL] @ ''# Generated automatically'' @ [NL]
         @ [NL] @ ''VITE_PUBNUB_PUBLISH_KEY=pub_abc'' @ [NL]
         @ ''VITE_PUBNUB_SUBSCRIBE_KEY=sub_xyz'' @ [NL],
      ''notes.txt'' \<mapsto> ''keep''] \<and>
   files (snd (save_env_file (scripted app_created keyset_created)
                 (JStr ''pub_abc'') (JStr ''sub_xyz'')
                 (world0\<lparr>files := [''/Users/craig/Documents/gits/swapit/client/.env''
                                       \<mapsto> ''OLD=1'',
                                     ''notes.txt'' \<mapsto> ''keep'']\<rparr>))) =
     [''/Users/craig/Documents/gits/swapit/client/.env'' \<mapsto>
         ''VITE_PUBNUB_PUBLISH_KEY=pub_abc'' @ [NL]
         @ ''VITE_PUBNUB_SUBSCRIBE_KEY=sub_xyz'' @ [NL],
      ''notes.txt'' \<mapsto> ''keep'']"
  using persist_overwrites_fixed_path
          [of "scripted app_created keyset_created" "JStr ''pub_abc''" "JStr ''sub_xyz''"
              "world0\<lparr>files := [''.env'' \<mapsto> ''OLD=1'', ''notes.txt'' \<mapsto> ''keep'']\<rparr>" world0]
        persist_overwrites_fixed_path
          [of "scripted app_created keyset_created" "JStr ''pub_abc''" "JStr ''sub_xyz''"
              "world0\<lparr>files := [''/Users/craig/Documents/gits/swapit/client/.env''
                                       \<mapsto> ''OLD=1'',
                                     ''notes.txt'' \<mapsto> ''keep'']\<rparr>" world0]
  by (simp add: env_content_def setup_env_content_def py_str_def world0_def fun_upd_twist)

subsection \<open>C6: tracebacks and exit codes\<close>

lemma main_stderr:
  "stderr (snd (main env w)) = stderr w"
  unfolding main_def Let_def
  by (simp add: main_simps split: sum.split option.split)

lemma main_app_refused:
  assumes "net env (app_request ''Swap It Game'') = Refused m"
  shows "fst (main env w) = Inl (RequestException m)"
  using assms by (simp add: main_app_raises app_outcome_def)

lemma main_keyset_refused:
  assumes "net env (app_request ''Swap It Game'') = Answer r1"
    and "status_code r1 \<in> set [200, 201]" and "parsed r1 = Inr d1"
    and "dict_get d1 ''id'' = Inr v" and "truthy v"
    and "net env (keyset_request env v ''Swap It Production'') = Refused m"
  shows "fst (main env w) = Inl (RequestException m)"
proof -
  from assms have app: "app_outcome env ''Swap It Game'' = Inr v"
    by (simp add: app_outcome_value)
  from assms(6)
  have "keyset_outcome env (keyset_request env v ''Swap It Production'') ''id''
          = Inl (RequestException m)"
    by (simp add: keyset_outcome_def)
  from main_keyset_raises(1) [OF app \<open>truthy v\<close> this] show ?thesis .
qed

lemma traceback_and_exit_1:
  assumes "fst (main env w) = Inl e" and "\<forall>n. e \<noteq> SystemExit n"
  shows "fst (run_create_pubnub_resources env w) = 1"
    and "stderr (snd (run_create_pubnub_resources env w)) = stderr w @ [e]"
  using assms by (cases e; simp add: run_create_pubnub_resources_eq main_stderr)+

text \<open>
  Claim C6, for \<^verbatim>\<open>create_pubnub_resources.py\<close>, whose \<^verbatim>\<open>__main__\<close> guard the claim is about.
  Whenever \<^verbatim>\<open>main\<close> raises an exception other than \<^verbatim>\<open>SystemExit\<close>, the traceback of that
  exception is printed and the process exits with code 1. A transport fault of the
  application-creation request, or of the keyset-creation request after a successful stage
  1, is such an exception. When every stage succeeds (both requests are answered with a
  status in \<open>{200, 201}\<close>, the identifier and both credentials are non-empty, and the file
  can be written) the process exits with code 0 and no traceback is printed.
\<close>

theorem fault_prints_traceback_success_exits_0:
  "(fst (main env w) = Inl e \<and> (\<forall>n. e \<noteq> SystemExit n) \<longrightarrow>
      fst (run_create_pubnub_resources env w) = 1 \<and>
      stderr (snd (run_create_pubnub_resources env w)) = stderr w @ [e]) \<and>
   (net env (app_request ''Swap It Game'') = Refused m \<longrightarrow>
      fst (run_create_pubnub_resources env w) = 1 \<and>
      stderr (snd (run_create_pubnub_resources env w)) = stderr w @ [RequestException m]) \<and>
   (net env (app_request ''Swap It Game'') = Answer r1 \<and>
    status_code r1 \<in> set [200, 201] \<and> parsed r1 = Inr d1 \<and>
    dict_get d1 ''id'' = Inr v \<and> truthy v \<and>
    net env (keyset_request env v ''Swap It Production'') = Refused m \<longrightarrow>
      fst (run_create_pubnub_resources env w) = 1 \<and>
      stderr (snd (run_create_pubnub_resources env w)) = stderr w @ [RequestException m]) \<and>
   (net env (app_request ''Swap It Game'') = Answer r1 \<and>
    status_code r1 \<in> set [200, 201] \<and> parsed r1 = Inr d1 \<and>
    dict_get d1 ''id'' = Inr v \<and> truthy v \<and>
    net env (keyset_request env v ''Swap It Production'') = Answer r2 \<and>
    status_code r2 \<in> set [200, 201] \<and> parsed r2 = Inr k \<and>
    dict_get k ''publishKey'' = Inr pk \<and> truthy pk \<and>
    dict_get k ''subscribeKey'' = Inr sk \<and> truthy sk \<and>
    open_w env ''.env'' = None \<longrightarrow>
      fst (run_create_pubnub_resources env w) = 0 \<and>
      stderr (snd (run_create_pubnub_resources env w)) = stderr w)"
proof (intro conjI impI; (elim conjE)?)
  assume "fst (main env w) = Inl e" and "\<forall>n. e \<noteq> SystemExit n"
  then show "fst (run_create_pubnub_resources env w) = 1"
    and "stderr (snd (run_create_pubnub_resources env w)) = stderr w @ [e]"
    by (rule traceback_and_exit_1)+
next
  assume "net env (app_request ''Swap It Game'') = Refused m"
  then have "fst (main env w) = Inl (RequestException m)"
    by (rule main_app_refused)
  then show "fst (run_create_pubnub_resources env w) = 1"
    and "stderr (snd (run_create_pubnub_resources env w)) = stderr w @ [RequestException m]"
    by (simp_all add: traceback_and_exit_1)
next
  assume "net env (app_request ''Swap It Game'') = Answer r1"
    "status_code r1 \<in> set [200, 201]" "parsed r1 = Inr d1"
    "dict_get d1 ''id'' = Inr v" "truthy v"
    "net env (keyset_request env v ''Swap It Production'') = Refused m"
  then have "fst (main env w) = Inl (RequestException m)"
    by (rule main_keyset_refused)
  then show "fst (run_create_pubnub_resources env w) = 1"
    and "stderr (snd (run_create_pubnub_resources env w)) = stderr w @ [RequestException m]"
    by (simp_all add: traceback_and_exit_1)
next
  assume h: "net env (app_request ''Swap It Game'') = Answer r1"
    "status_code r1 \<in> set [200, 201]" "parsed r1 = Inr d1"
    "dict_get d1 ''id'' = Inr v" "truthy v"
    "net env (keyset_request env v ''Swap It Production'') = Answer r2"
    "status_code r2 \<in> set [200, 201]" "parsed r2 = Inr k"
    "dict_get k ''publishKey'' = Inr pk" "truthy pk"
    "dict_get k ''subscribeKey'' = Inr sk" "truthy sk"
    "open_w env ''.env'' = None"
  then show "fst (run_create_pubnub_resources env w) = 0"
    and "stderr (snd (run_create_pubnub_resources env w)) = stderr w"
    by (rule persisted_by_create_pubnub_resources)+
qed

text \<open>
  The witness for C6: a refused connection at stage 1, a refused connection at stage 2, and
  the successful run of the specification's scenario.
\<close>

theorem fault_prints_traceback_success_exits_0_witness:
  "fst (run_create_pubnub_resources
          (scripted (Refused ''Connection refused'') keyset_created) world0) = 1 \<and>
   stderr (snd (run_create_pubnub_resources
                  (scripted (Refused ''Connection refused'') keyset_created) world0)) =
     [RequestException ''Connection refused''] \<and>
   fst (run_create_pubnub_resources
          (scripted app_created (Refused ''Read timed out'')) world0) = 1 \<and>
   stderr (snd (run_create_pubnub_resources
                  (scripted app_created (Refused ''Read timed out'')) world0)) =
     [RequestException ''Read timed out''] \<and>
   fst (run_create_pubnub_resources (scripted app_created keyset_created) world0) = 0 \<and>
   stderr (snd (run_create_pubnub_resources (scripted app_created keyset_created) world0)) = []"
  using fault_prints_traceback_success_exits_0
          [where env = "scripted (Refused ''Connection refused'') keyset_created"
             and w = world0 and e = "RequestException ''Connection refused''"
             and m = "''Connection refused''", THEN conjunct1]
        fault_prints_traceback_success_exits_0
          [where env = "scripted app_created (Refused ''Read timed out'')"
             and w = world0 and m = "''Read timed out''"
             and ?r1.0 = "json_response 201 (''{'' @ dq ''id'' @ '': '' @ dq ''app_123'' @ ''}'')
                            (JObj [(''id'', JStr ''app_123'')])"
             and ?d1.0 = "JObj [(''id'', JStr ''app_123'')]" and v = "JStr ''app_123''",
           THEN conjunct2, THEN conjunct2, THEN conjunct1]
        fault_prints_traceback_success_exits_0
          [where env = "scripted app_created keyset_created" and w = world0
             and ?r1.0 = "json_response 201 (''{'' @ dq ''id'' @ '': '' @ dq ''app_123'' @ ''}'')
                            (JObj [(''id'', JStr ''app_123'')])"
             and ?d1.0 = "JObj [(''id'', JStr ''app_123'')]" and v = "JStr ''app_123''"
             and ?r2.0 = "json_response 200
               (''{'' @ dq ''publishKey'' @ '': '' @ dq ''pub_abc'' @ '', ''
                @ dq ''subscribeKey'' @ '': '' @ dq ''sub_xyz'' @ ''}'')
               (JObj [(''publishKey'', JStr ''pub_abc''), (''subscribeKey'', JStr ''sub_xyz'')])"
             and k = "JObj [(''publishKey'', JStr ''pub_abc''),
                            (''subscribeKey'', JStr ''sub_xyz'')]"
             and pk = "JStr ''pub_abc''" and sk = "JStr ''sub_xyz''",
           THEN conjunct2, THEN conjunct2, THEN conjunct2]
  by (simp add: main_app_refused app_created_def keyset_created_def dict_get_JObj world0_def)

subsection \<open>C7: the application-creation request\<close>




subsection \<open>C8 and C10: the probing script\<close>

lemma probe_effects:
  "sent (probe env e w) = sent w @ [probe_request e]"
  "files (probe env e w) = files w"
  "stderr (probe env e w) = stderr w"
  unfolding probe_def probe_request_def requests_get_def requests_post_def issue_eq Let_def
  by (cases e; simp add: split_beta split: sum.split reply.split)+

lemma probes_effects:
  "sent (foldl (\<lambda>w e. probe env e w) w es) = sent w @ map probe_request es \<and>
   files (foldl (\<lambda>w e. probe env e w) w es) = files w \<and>
   stderr (foldl (\<lambda>w e. probe env e w) w es) = stderr w"
  by (induction es arbitrary: w) (simp_all add: probe_effects)

lemma run_test_api_endpoints_effects:
  "sent (snd (run_test_api_endpoints env w)) = sent w @ map probe_request endpoints"
  "files (snd (run_test_api_endpoints env w)) = files w"
  "stderr (snd (run_test_api_endpoints env w)) = stderr w"
  by (simp_all add: run_test_api_endpoints_def Let_def probes_effects)

lemma main_result_any_world:
  "fst (main env w) = fst (main env w')"
  unfolding main_def Let_def
  by (simp add: main_simps split: sum.split option.split)

lemma main_files_any_world:
  "files w = files w' \<Longrightarrow> files (snd (main env w)) = files (snd (main env w'))"
  unfolding main_def Let_def
  by (simp add: main_simps split: sum.split option.split)

lemma setup_main_result_any_world:
  "fst (setup_main env w) = fst (setup_main env w')"
  unfolding setup_main_def Let_def
  by (simp add: setup_main_simps split: sum.split option.split)

lemma setup_main_files_any_world:
  "files w = files w' \<Longrightarrow> files (snd (setup_main env w)) = files (snd (setup_main env w'))"
  unfolding setup_main_def Let_def
  by (simp add: setup_main_simps split: sum.split option.split)


lemma endpoints_requests:
  "map probe_request endpoints =
     map (\<lambda>(m, u, d). \<lparr>http_method = ''GET'', url = u, headers = auth_headers, payload = None,
                         timeout = Some 5\<rparr>) endpoints"
  by (simp add: endpoints_def probe_request_def)

text \<open>
  Claim C8. Whatever the network does with each request (a response or a transport fault,
  for any of them), the probing script issues the requests of its fixed list, all five, in
  order, each as a GET with the timeout 5 and no body: a fault on one request does not stop
  a later one from being issued. The script writes no file. And the pipelines do not depend
  on it: run after the probing script, each pipeline exits with the same code and leaves the
  same files as it does without it.
\<close>

theorem probes_are_independent_gets:
  "sent (snd (run_test_api_endpoints env w)) =
     sent w @ map (\<lambda>(m, u, d). \<lparr>http_method = ''GET'', url = u, headers = auth_headers,
                                  payload = None, timeout = Some 5\<rparr>) endpoints \<and>
   length endpoints = 5 \<and>
   files (snd (run_test_api_endpoints env w)) = files w \<and>
   fst (run_create_pubnub_resources env (snd (run_test_api_endpoints env w))) =
     fst (run_create_pubnub_resources env w) \<and>
   files (snd (run_create_pubnub_resources env (snd (run_test_api_endpoints env w)))) =
     files (snd (run_create_pubnub_resources env w)) \<and>
   fst (run_setup_pubnub env (snd (run_test_api_endpoints env w))) =
     fst (run_setup_pubnub env w) \<and>
   files (snd (run_setup_pubnub env (snd (run_test_api_endpoints env w)))) =
     files (snd (run_setup_pubnub env w))"
proof -
  let ?w' = "snd (run_test_api_endpoints env w)"
  have f: "files ?w' = files w"
    by (rule run_test_api_endpoints_effects)
  have "sent ?w' =
     sent w @ map (\<lambda>(m, u, d). \<lparr>http_method = ''GET'', url = u, headers = auth_headers,
                                  payload = None, timeout = Some 5\<rparr>) endpoints"
    by (simp only: run_test_api_endpoints_effects endpoints_requests)
  moreover have "length endpoints = 5"
    by (simp add: endpoints_def)
  moreover have "fst (run_create_pubnub_resources env ?w') =
                   fst (run_create_pubnub_resources env w)"
    by (simp only: run_create_pubnub_resources_eq main_result_any_world [of env ?w' w])
  moreover have "files (snd (run_create_pubnub_resources env ?w')) =
                   files (snd (run_create_pubnub_resources env w))"
    by (simp only: run_create_pubnub_resources_eq main_files_any_world [OF f])
  moreover have "fst (run_setup_pubnub env ?w') = fst (run_setup_pubnub env w)"
    by (simp only: run_setup_pubnub_eq setup_main_result_any_world [of env ?w' w])
  moreover have "files (snd (run_setup_pubnub env ?w')) = files (snd (run_setup_pubnub env w))"
    by (simp only: run_setup_pubnub_eq setup_main_files_any_world [OF f])
  ultimately show ?thesis using f by (intro conjI)
qed

text \<open>
  Claim C10. Every entry of the endpoint list has the method \<^verbatim>\<open>GET\<close>, so the test
  \<^verbatim>\<open>method == "GET"\<close> holds in every pass through the loop and the \<^verbatim>\<open>else\<close> branch,
  which would issue a POST, is never taken: the requests the script issues are those that
  \<^verbatim>\<open>requests.get\<close> builds, and a run adds no POST request to the requests sent.
\<close>

theorem post_branch_unreachable:
  "map fst endpoints = replicate 5 ''GET'' \<and>
   list_all (\<lambda>e. probe_request e =
                    \<lparr>http_method = ''GET'', url = fst (snd e), headers = auth_headers,
                     payload = None, timeout = Some 5\<rparr>) endpoints \<and>
   filter (\<lambda>rq. http_method rq = ''POST'') (sent (snd (run_test_api_endpoints env w))) =
     filter (\<lambda>rq. http_method rq = ''POST'') (sent w)"
proof -
  have "map fst endpoints = replicate 5 ''GET''"
    by (simp add: endpoints_def numeral_eq_Suc)
  moreover have "list_all (\<lambda>e. probe_request e =
                    \<lparr>http_method = ''GET'', url = fst (snd e), headers = auth_headers,
                     payload = None, timeout = Some 5\<rparr>) endpoints"
    by (simp add: endpoints_def probe_request_def)
  moreover have "filter (\<lambda>rq. http_method rq = ''POST'') (map probe_request endpoints) = []"
    by (simp add: endpoints_def probe_request_def)
  then have "filter (\<lambda>rq. http_method rq = ''POST'') (sent (snd (run_test_api_endpoints env w)))
             = filter (\<lambda>rq. http_method rq = ''POST'') (sent w)"
    by (simp add: run_test_api_endpoints_effects)
  ultimately show ?thesis by (intro conjI)
qed

end
